theory Spec2Isabelle
  imports Main "HOL-Library.Word" "HOL-Library.List_Lexorder" "HOL-Library.Multiset"
begin

section \<open>JavaScript values\<close>

text \<open>
  A JavaScript string is a sequence of UTF-16 code units. The conversion \<open>str\<close> writes an
  ASCII literal of the source as such a sequence.
\<close>

type_synonym js_string = "16 word list"

definition chr :: "char \<Rightarrow> 16 word" where
  "chr ch = of_nat (of_char ch)"

definition str :: "string \<Rightarrow> js_string" where
  "str s = map chr s"

text \<open>
  The values the exported functions of \<open>lib/model.js\<close> can be called with. Numbers are
  restricted to integers and arrays to arrays of strings; \<open>JSUndefined\<close> is also the value of
  a parameter that the caller left out.
\<close>

datatype js_value =
    JSUndefined
  | JSNull
  | JSBoolean bool
  | JSNumber int
  | JSString js_string
  | JSArray "js_string list"

text \<open>Truthiness, as tested by \<open>assert(value, ...)\<close>, \<open>if (type)\<close> and \<open>!userGroups\<close>.\<close>

fun truthy :: "js_value \<Rightarrow> bool" where
  "truthy JSUndefined = False"
| "truthy JSNull = False"
| "truthy (JSBoolean b) = b"
| "truthy (JSNumber n) = (n \<noteq> 0)"
| "truthy (JSString s) = (s \<noteq> [])"
| "truthy (JSArray xs) = True"

fun typeof :: "js_value \<Rightarrow> string" where
  "typeof JSUndefined = ''undefined''"
| "typeof JSNull = ''object''"
| "typeof (JSBoolean b) = ''boolean''"
| "typeof (JSNumber n) = ''number''"
| "typeof (JSString s) = ''string''"
| "typeof (JSArray xs) = ''object''"

fun instanceof_Array :: "js_value \<Rightarrow> bool" where
  "instanceof_Array (JSArray xs) = True"
| "instanceof_Array v = False"

text \<open>
  \<open>String.prototype.trim\<close> removes leading and trailing code units that are WhiteSpace or
  LineTerminator in ECMAScript: TAB, LF, VT, FF, CR, SP, NBSP, U+1680, U+2000 to U+200A,
  LS, PS, U+202F, U+205F, U+3000 and the byte order mark U+FEFF.
\<close>

definition isWhiteSpace :: "16 word \<Rightarrow> bool" where
  "isWhiteSpace ch \<longleftrightarrow>
     ch \<in> {0x0009, 0x000A, 0x000B, 0x000C, 0x000D, 0x0020, 0x00A0, 0x1680,
           0x2000, 0x2001, 0x2002, 0x2003, 0x2004, 0x2005, 0x2006, 0x2007, 0x2008, 0x2009,
           0x200A, 0x2028, 0x2029, 0x202F, 0x205F, 0x3000, 0xFEFF}"

definition trim :: "js_string \<Rightarrow> js_string" where
  "trim s = rev (dropWhile isWhiteSpace (rev (dropWhile isWhiteSpace s)))"

section \<open>Errors and promises\<close>

text \<open>
  The rejection reasons of the promises of the module. The messages of \<open>DbError\<close> and of the
  plain \<open>Error\<close> come from \<open>lib/constants.js\<close>. \<open>TypeError\<close> is what JavaScript throws at a
  property access on \<open>null\<close> or at a call of a method that the value does not have;
  \<open>RandomBytesError\<close> is the error that \<open>crypto.randomBytes\<close> passes to its callback and
  \<open>MongoError\<close> the reason \<open>MongoClient.connect\<close> rejects with.
\<close>

datatype error =
    AssertionError string
  | TypeError
  | DbError string
  | Error string
  | RandomBytesError
  | MongoError string

text \<open>
  A settled promise is its rejection reason or its value; \<open>p.then(f)\<close> runs \<open>f\<close> on the value
  of a fulfilled promise and passes a rejection on.
\<close>

type_synonym 'a promise = "error + 'a"

definition then_p :: "'a promise \<Rightarrow> ('a \<Rightarrow> 'b promise) \<Rightarrow> 'b promise" where
  "then_p p f = (case p of Inl e \<Rightarrow> Inl e | Inr x \<Rightarrow> f x)"

section \<open>Argument validation\<close>

text \<open>
  \<open>assert(cond, message)\<close> throws an \<open>AssertionError\<close> with the message when the condition
  is falsy. The leading underscore of the private functions of the source is written as a
  trailing prime.
\<close>

definition assert :: "bool \<Rightarrow> string \<Rightarrow> unit promise" where
  "assert cond message = (if cond then Inr () else Inl (AssertionError message))"

definition validate' :: "string \<Rightarrow> string \<Rightarrow> js_value \<Rightarrow> string option \<Rightarrow> unit promise" where
  "validate' scope name v type =
     then_p (assert (truthy v) (scope @ '': '' @ name @ '' is not defined'')) (\<lambda>_.
       case type of
         None \<Rightarrow> Inr ()
       | Some t \<Rightarrow>
           if t = [] then Inr ()
           else assert (typeof v = t) (scope @ '': '' @ name @ '' must be a '' @ t))"

text \<open>
  \<open>_validateNoEmptyString\<close> returns nothing in the source; here it hands back the string
  that passed, so that the caller has it at its type. A value that passed \<open>_validate\<close> and
  is not a string has no \<open>trim\<close> method.
\<close>

definition validateNoEmptyString' ::
  "string \<Rightarrow> string \<Rightarrow> js_value \<Rightarrow> string option \<Rightarrow> js_string promise" where
  "validateNoEmptyString' scope name v type =
     then_p (validate' scope name v type) (\<lambda>_.
       case v of
         JSString s \<Rightarrow>
           then_p (assert (trim s \<noteq> []) (scope @ '': '' @ name @ '' cannot be empty string''))
             (\<lambda>_. Inr s)
       | _ \<Rightarrow> Inl TypeError)"

section \<open>Constants, documents and the database\<close>

text \<open>
  \<open>moment()\<close> is an instant in milliseconds since the epoch. \<open>format()\<close> prints an instant
  with a precision of one second, so the instant that a printed time denotes is the instant
  truncated to the second. The units of \<open>moment.duration\<close> are the ones of fixed length; a day
  is 24 hours (the server's offset from UTC is taken as fixed).
\<close>

type_synonym moment = int

definition format :: "moment \<Rightarrow> moment" where
  "format m = (m div 1000) * 1000"

datatype duration_unit = milliseconds | seconds | minutes | hours | days | weeks

fun unit_ms :: "duration_unit \<Rightarrow> int" where
  "unit_ms milliseconds = 1"
| "unit_ms seconds = 1000"
| "unit_ms minutes = 60000"
| "unit_ms hours = 3600000"
| "unit_ms days = 86400000"
| "unit_ms weeks = 604800000"

definition duration :: "int \<Rightarrow> duration_unit \<Rightarrow> int" where
  "duration n u = n * unit_ms u"

text \<open>
  \<open>lib/constants.js\<close> is not part of the sources at hand: the constants that
  \<open>lib/model.js\<close> reads from it are a parameter of every function that uses them. The two
  collection names are the fields \<open>tokens\<close> and \<open>users\<close> of the database below.
\<close>

record constants =
  TOKEN_STATUS_VALID :: js_string
  TOKEN_STATUS_REVOKED :: js_string
  TOKEN_DURATION :: int
  TOKEN_DURATION_UNIT :: duration_unit
  UNEXPECTED_NUM_DOCS :: string
  USER_NOT_TOKEN_OWNER :: string

text \<open>
  An entry of \<open>hist\<close>. \<open>lib/model.js\<close> writes \<open>time\<close> and \<open>reason\<close>; its tests also read
  \<open>operating_user\<close> and \<open>operation\<close>, which are \<open>None\<close> in an entry that does not have the
  property.
\<close>

record hist_entry =
  time :: moment
  operating_user :: "js_string option"
  operation :: "js_string option"
  reason :: js_string

text \<open>
  A document of the collection of users; its field \<open>user\<close> is written \<open>user_id\<close> here, and
  \<open>groups\<close> is \<open>None\<close> when the document has no such field.
\<close>

record user_doc =
  user_id :: js_string
  groups :: "js_string list option"

text \<open>
  A document of the collection of tokens. \<open>user\<close> and \<open>expiryTime\<close> are \<open>None\<close> in a
  document without the field, \<open>hist\<close> is empty in one without it.
\<close>

record token_doc =
  token :: js_string
  status :: js_string
  hist :: "hist_entry list"
  user :: "js_string option"
  expiryTime :: "moment option"

text \<open>
  The MongoDB database: \<open>connectError\<close> is the reason \<open>MongoClient.connect\<close> rejected with,
  \<open>None\<close> when it connected. A collection is the list of its documents in natural order;
  nothing keeps two documents from having the same token.
\<close>

record db =
  connectError :: "error option"
  tokens :: "token_doc list"
  users :: "user_doc list"

definition p_db :: "db \<Rightarrow> db promise" where
  "p_db d = (case connectError d of Some e \<Rightarrow> Inl e | None \<Rightarrow> Inr d)"

definition getCollection :: "(db \<Rightarrow> 'a list) \<Rightarrow> db \<Rightarrow> 'a list promise" where
  "getCollection collName d = Inr (collName d)"

definition p_collection :: "db \<Rightarrow> token_doc list promise" where
  "p_collection d = then_p (p_db d) (getCollection tokens)"

text \<open>The value that reading the property \<open>user\<close> of a token document gives.\<close>

definition field_value :: "js_string option \<Rightarrow> js_value" where
  "field_value f = (case f of None \<Rightarrow> JSUndefined | Some s \<Rightarrow> JSString s)"

section \<open>Token generator\<close>

text \<open>
  The source of \<open>crypto.randomBytes\<close>: \<open>None\<close> when it is not available, else the bytes it
  gives, by position.
\<close>

type_synonym random_source = "(nat \<Rightarrow> 8 word) option"

definition randomBytes :: "nat \<Rightarrow> random_source \<Rightarrow> 8 word list promise" where
  "randomBytes n src =
     (case src of None \<Rightarrow> Inl RandomBytesError | Some f \<Rightarrow> Inr (map f [0..<n]))"

text \<open>\<open>buf.toString('base64')\<close>: the base64 encoding of RFC 4648, with padding.\<close>

definition base64_alphabet :: js_string where
  "base64_alphabet = str ''ABCDEFGHIJKLMNOPQRSTUVWXYZabcdefghijklmnopqrstuvwxyz0123456789+/''"

definition b64 :: "nat \<Rightarrow> 16 word" where
  "b64 n = base64_alphabet ! n"

fun toString_base64 :: "8 word list \<Rightarrow> js_string" where
  "toString_base64 [] = []"
| "toString_base64 [a] =
     (let x = unat a in [b64 (x div 4), b64 ((x mod 4) * 16), chr CHR ''='', chr CHR ''=''])"
| "toString_base64 [a, b] =
     (let x = unat a; y = unat b in
        [b64 (x div 4), b64 ((x mod 4) * 16 + y div 16), b64 ((y mod 16) * 4), chr CHR ''=''])"
| "toString_base64 (a # b # c # rest) =
     (let x = unat a; y = unat b; z = unat c in
        [b64 (x div 4), b64 ((x mod 4) * 16 + y div 16), b64 ((y mod 16) * 4 + z div 64),
         b64 (z mod 64)]) @ toString_base64 rest"

text \<open>\<open>s.replace(/a/g, 'b')\<close> for a pattern of one character.\<close>

definition replace :: "16 word \<Rightarrow> 16 word \<Rightarrow> js_string \<Rightarrow> js_string" where
  "replace a b s = map (\<lambda>ch. if ch = a then b else ch) s"

text \<open>
  When \<open>randomBytes\<close> fails, the promise is rejected with its error; what the callback of
  the source does after that does not change the promise.
\<close>

definition generateTokenPromise :: "random_source \<Rightarrow> js_string promise" where
  "generateTokenPromise src =
     then_p (randomBytes 24 src) (\<lambda>buf.
       Inr (replace (chr CHR ''+'') (chr CHR ''-'')
             (replace (chr CHR ''/'') (chr CHR ''_'') (toString_base64 buf))))"

section \<open>Cursors\<close>

text \<open>A cursor is the list of the documents that match the query, in natural order.\<close>

definition findMatchingTokens :: "db \<Rightarrow> js_string \<Rightarrow> token_doc list promise" where
  "findMatchingTokens d tok =
     then_p (p_collection d) (\<lambda>collection. Inr (filter (\<lambda>doc. token doc = tok) collection))"

text \<open>\<open>cursor.next()\<close> is \<open>null\<close>, here \<open>None\<close>, when the cursor has no document.\<close>

definition getDocument :: "'a list promise \<Rightarrow> unit \<Rightarrow> 'a option promise" where
  "getDocument p_cursor = (\<lambda>_.
     then_p p_cursor (\<lambda>cursor. Inr (case cursor of [] \<Rightarrow> None | doc # _ \<Rightarrow> Some doc)))"

definition cursorHasExactlyOneDoc :: "constants \<Rightarrow> 'a list promise \<Rightarrow> unit promise" where
  "cursorHasExactlyOneDoc c p_cursor =
     then_p (then_p p_cursor (\<lambda>cursor. Inr (length cursor))) (\<lambda>count.
       if count = 1 then Inr () else Inl (DbError (UNEXPECTED_NUM_DOCS c)))"

section \<open>The exported functions\<close>

text \<open>
  \<open>now\<close> is the value of the call of \<open>moment()\<close> that the function makes. A function that
  writes to the database returns the database after the call next to its promise.
\<close>

definition buildToken' :: "constants \<Rightarrow> moment \<Rightarrow> js_string \<Rightarrow> js_string \<Rightarrow> js_string \<Rightarrow> token_doc" where
  "buildToken' c now tok usr justification =
     (let validDuration = duration (TOKEN_DURATION c) (TOKEN_DURATION_UNIT c) in
        \<lparr>token = tok,
         status = TOKEN_STATUS_VALID c,
         hist = [\<lparr>time = format now, operating_user = None, operation = None,
                  reason = justification\<rparr>],
         user = Some usr,
         expiryTime = Some (format (now + validDuration))\<rparr>)"

definition insertOne :: "token_doc \<Rightarrow> db \<Rightarrow> db" where
  "insertOne doc d = d\<lparr>tokens := tokens d @ [doc]\<rparr>"

definition createToken ::
  "constants \<Rightarrow> random_source \<Rightarrow> moment \<Rightarrow> db \<Rightarrow> js_value \<Rightarrow> js_value \<Rightarrow> token_doc promise \<times> db" where
  "createToken c src now d usr justification =
     (case then_p (validateNoEmptyString' ''createToken'' ''user'' usr (Some ''string'')) (\<lambda>u.
           then_p (validateNoEmptyString' ''createToken'' ''justification'' justification
                     (Some ''string'')) (\<lambda>j. Inr (u, j))) of
        Inl e \<Rightarrow> (Inl e, d)
      | Inr (u, j) \<Rightarrow>
          (case generateTokenPromise src of
             Inl err \<Rightarrow> (Inl err, d)
           | Inr tok \<Rightarrow>
               (let doc = buildToken' c now tok u j in
                  case p_collection d of
                    Inl err \<Rightarrow> (Inl err, d)
                  | Inr collection \<Rightarrow> (Inr doc, insertOne doc d))))"

text \<open>
  \<open>findOneAndUpdate(filter, update, {returnOriginal: false})\<close> changes the first document
  that matches and gives the changed document, or \<open>null\<close> when none matches.
\<close>

fun findOneAndUpdate :: "('a \<Rightarrow> bool) \<Rightarrow> ('a \<Rightarrow> 'a) \<Rightarrow> 'a list \<Rightarrow> 'a option \<times> 'a list" where
  "findOneAndUpdate q upd [] = (None, [])"
| "findOneAndUpdate q upd (x # xs) =
     (if q x then (Some (upd x), upd x # xs)
      else (let (res, ys) = findOneAndUpdate q upd xs in (res, x # ys)))"

definition updateToken' ::
  "db \<Rightarrow> token_doc \<Rightarrow> (token_doc \<Rightarrow> token_doc) \<Rightarrow> token_doc option promise \<times> db" where
  "updateToken' d doc update =
     (case p_collection d of
        Inl err \<Rightarrow> (Inl err, d)
      | Inr collection \<Rightarrow>
          (let (val, collection') =
                 findOneAndUpdate (\<lambda>x. token x = token doc) update collection
           in (Inr val, d\<lparr>tokens := collection'\<rparr>)))"

definition revokeToken ::
  "constants \<Rightarrow> moment \<Rightarrow> db \<Rightarrow> js_value \<Rightarrow> js_value \<Rightarrow> js_value \<Rightarrow> token_doc option promise \<times> db" where
  "revokeToken c now d usr tok justification =
     (case then_p (validateNoEmptyString' ''revokeToken'' ''user'' usr (Some ''string'')) (\<lambda>u.
           then_p (validateNoEmptyString' ''revokeToken'' ''token'' tok (Some ''string'')) (\<lambda>t.
           then_p (validateNoEmptyString' ''revokeToken'' ''justification'' justification
                     (Some ''string'')) (\<lambda>j. Inr (u, t, j)))) of
        Inl e \<Rightarrow> (Inl e, d)
      | Inr (u, t, j) \<Rightarrow>
          (let p_cursor = findMatchingTokens d t;
               p_onlyOneDoc = cursorHasExactlyOneDoc c p_cursor;
               p_document = then_p p_onlyOneDoc (getDocument p_cursor);
               p_correctUser = then_p p_document (\<lambda>doc.
                 case doc of
                   None \<Rightarrow> Inl TypeError
                 | Some doc \<Rightarrow>
                     if Some u = user doc then Inr ()
                     else Inl (Error (USER_NOT_TOKEN_OWNER c)))
           in case p_correctUser of
                Inl err \<Rightarrow> (Inl err, d)
              | Inr _ \<Rightarrow>
                  (case p_document of
                     Inl err \<Rightarrow> (Inl err, d)
                   | Inr None \<Rightarrow> (Inl TypeError, d)
                   | Inr (Some doc) \<Rightarrow>
                       updateToken' d doc (\<lambda>x.
                         x\<lparr>status := TOKEN_STATUS_REVOKED c,
                           hist := hist x @ [\<lparr>time = format now, operating_user = None,
                                              operation = None, reason = j\<rparr>]\<rparr>))))"

text \<open>
  \<open>sort(field, -1)\<close> sorts by the field, greatest first. Strings are compared code unit by
  code unit, from the left; this is the order in which MongoDB compares them as long as they
  have no character from U+D800 on. MongoDB does not say in which order it gives documents
  with equal keys; \<open>sort_desc\<close> gives one such order.
\<close>

definition sort_desc :: "('a \<Rightarrow> 'k::linorder) \<Rightarrow> 'a list \<Rightarrow> 'a list" where
  "sort_desc f xs = rev (sort_key f xs)"

definition listTokens :: "db \<Rightarrow> js_value \<Rightarrow> token_doc list promise" where
  "listTokens d usr =
     then_p (assert (truthy usr) ''listTokens: user is not defined'') (\<lambda>_.
     then_p (assert (typeof usr = ''string'') ''listTokens: user must be a string'') (\<lambda>_.
     then_p (p_collection d) (\<lambda>collection.
       Inr (sort_desc status (filter (\<lambda>doc. field_value (user doc) = usr) collection)))))"

text \<open>\<open>xs.indexOf(v)\<close>: the first position of \<open>v\<close> in \<open>xs\<close>, or -1.\<close>

fun indexOf :: "'a list \<Rightarrow> 'a \<Rightarrow> int" where
  "indexOf [] v = - 1"
| "indexOf (x # xs) v =
     (if x = v then 0 else (let i = indexOf xs v in if i < 0 then - 1 else i + 1))"

definition validateUser :: "constants \<Rightarrow> db \<Rightarrow> js_value \<Rightarrow> js_value \<Rightarrow> bool promise" where
  "validateUser c d grps usr =
     then_p (validate' ''validateUser'' ''groups'' grps None) (\<lambda>_.
     then_p (assert (instanceof_Array grps) ''validateUser: groups must be an Array'') (\<lambda>_.
     then_p (validateNoEmptyString' ''validateUser'' ''user'' usr (Some ''string'')) (\<lambda>u.
       let p_user_collection = then_p (p_db d) (getCollection users);
           p_user_cursor = then_p p_user_collection (\<lambda>collection.
             Inr (filter (\<lambda>doc. user_id doc = u) collection));
           p_user_onlyOneDoc = cursorHasExactlyOneDoc c p_user_cursor;
           p_user_document = then_p p_user_onlyOneDoc (getDocument p_user_cursor);
           p_groups = then_p p_user_document (\<lambda>doc.
             case doc of None \<Rightarrow> Inl TypeError | Some doc \<Rightarrow> Inr (groups doc))
       in then_p p_groups (\<lambda>userGroups.
            case userGroups of
              None \<Rightarrow> Inr False
            | Some userGroups \<Rightarrow>
                (case grps of
                   JSArray gs \<Rightarrow> Inr (list_all (\<lambda>val. indexOf userGroups val \<ge> 0) gs)
                 | _ \<Rightarrow> Inl TypeError)))))"

definition validateToken :: "constants \<Rightarrow> moment \<Rightarrow> db \<Rightarrow> js_value \<Rightarrow> js_value \<Rightarrow> bool promise" where
  "validateToken c now d grps tok =
     then_p (validate' ''validateToken'' ''groups'' grps None) (\<lambda>_.
     then_p (assert (instanceof_Array grps) ''validateToken: groups must be an Array'') (\<lambda>_.
     then_p (validateNoEmptyString' ''validateToken'' ''token'' tok (Some ''string'')) (\<lambda>t.
       let p_cursor = findMatchingTokens d t;
           p_onlyOneDoc = cursorHasExactlyOneDoc c p_cursor;
           p_document = then_p p_onlyOneDoc (getDocument p_cursor)
       in then_p p_document (\<lambda>doc.
            case doc of
              None \<Rightarrow> Inl TypeError
            | Some doc \<Rightarrow>
                if status doc = TOKEN_STATUS_REVOKED c then Inr False
                else if (case expiryTime doc of None \<Rightarrow> False | Some e \<Rightarrow> now > e)
                then Inr False
                else validateUser c d grps (field_value (user doc))))))"

section \<open>Sequences of calls\<close>

text \<open>
  A call of one of the exported functions, with the clock and the random source it meets.
  \<open>exec\<close> is the database after the call: \<open>listTokens\<close>, \<open>validateToken\<close> and
  \<open>validateUser\<close> only read (\<open>find\<close>, \<open>count\<close>, \<open>next\<close>, \<open>toArray\<close>).
\<close>

datatype call =
    CreateToken random_source moment js_value js_value
  | RevokeToken moment js_value js_value js_value
  | ListTokens js_value
  | ValidateToken moment js_value js_value
  | ValidateUser js_value js_value

fun exec :: "constants \<Rightarrow> call \<Rightarrow> db \<Rightarrow> db" where
  "exec c (CreateToken src now usr justification) d = snd (createToken c src now d usr justification)"
| "exec c (RevokeToken now usr tok justification) d = snd (revokeToken c now d usr tok justification)"
| "exec c (ListTokens usr) d = d"
| "exec c (ValidateToken now grps tok) d = d"
| "exec c (ValidateUser grps usr) d = d"

fun run :: "constants \<Rightarrow> call list \<Rightarrow> db \<Rightarrow> db" where
  "run c [] d = d"
| "run c (x # xs) d = run c xs (exec c x d)"

section \<open>The format of a token\<close>

text \<open>
  The characters that the test of \<open>createToken\<close> accepts in a token:
  \<open>/^[a-zA-Z0-9_-]{32}$/\<close>.
\<close>

definition url_safe :: "16 word \<Rightarrow> bool" where
  "url_safe ch \<longleftrightarrow>
     (chr CHR ''a'' \<le> ch \<and> ch \<le> chr CHR ''z'') \<or>
     (chr CHR ''A'' \<le> ch \<and> ch \<le> chr CHR ''Z'') \<or>
     (chr CHR ''0'' \<le> ch \<and> ch \<le> chr CHR ''9'') \<or>
     ch = chr CHR ''_'' \<or> ch = chr CHR ''-''"

section \<open>Example values\<close>

text \<open>
  A value of the constants: tokens last 7 days, as the test of \<open>createToken\<close> expects, and
  the status of a revoked token is the string that \<open>app.js\<close> names. The two messages
  stand for the ones of \<open>lib/constants.js\<close>.
\<close>

definition example_constants :: constants where
  "example_constants =
     \<lparr>TOKEN_STATUS_VALID = str ''valid'',
      TOKEN_STATUS_REVOKED = str ''revoked'',
      TOKEN_DURATION = 7,
      TOKEN_DURATION_UNIT = days,
      UNEXPECTED_NUM_DOCS = ''Unexpected number of documents'',
      USER_NOT_TOKEN_OWNER = ''User is not owner of token''\<rparr>"

definition example_bytes :: "nat \<Rightarrow> 8 word" where
  "example_bytes i = of_nat (37 * i + 250)"

definition alice :: js_string where
  "alice = str ''alice@example.com''"

definition bob :: js_string where
  "bob = str ''bob@example.com''"

definition token_A :: js_string where
  "token_A = str ''AAAAAAAAAAAAAAAAAAAAAAAAAAAAAAAA''"

definition token_B :: js_string where
  "token_B = str ''BBBBBBBBBBBBBBBBBBBBBBBBBBBBBBBB''"

text \<open>
  Alice has the valid token A and the revoked token B; her user document has the groups
  1, 2 and 5, the one of Bob has no field \<open>groups\<close>.
\<close>

definition doc_A :: token_doc where
  "doc_A = \<lparr>token = token_A, status = str ''valid'',
            hist = [\<lparr>time = 1500000000000, operating_user = None, operation = None,
                     reason = str ''created''\<rparr>],
            user = Some alice, expiryTime = Some 1500604800000\<rparr>"

definition doc_B :: token_doc where
  "doc_B = \<lparr>token = token_B, status = str ''revoked'',
            hist = [\<lparr>time = 1500000000000, operating_user = None, operation = None,
                     reason = str ''created''\<rparr>,
                    \<lparr>time = 1500000100000, operating_user = None, operation = None,
                     reason = str ''lost''\<rparr>],
            user = Some alice, expiryTime = Some 1500604800000\<rparr>"

definition example_db :: db where
  "example_db =
     \<lparr>connectError = None,
      tokens = [doc_B, doc_A],
      users = [\<lparr>user_id = alice, groups = Some [str ''1'', str ''2'', str ''5'']\<rparr>,
               \<lparr>user_id = bob, groups = None\<rparr>]\<rparr>"

section \<open>Promises and validation\<close>

lemma then_p_Inl [simp]: "then_p (Inl e) f = Inl e"
  by (simp add: then_p_def)

lemma then_p_Inr [simp]: "then_p (Inr x) f = f x"
  by (simp add: then_p_def)

lemma dropWhile_all_iff: "(\<forall>x\<in>set (dropWhile P xs). P x) \<longleftrightarrow> (\<forall>x\<in>set xs. P x)"
  by (induction xs) auto

lemma trim_eq_Nil_iff: "trim s = [] \<longleftrightarrow> (\<forall>ch\<in>set s. isWhiteSpace ch)"
proof -
  have "trim s = [] \<longleftrightarrow> dropWhile isWhiteSpace (rev (dropWhile isWhiteSpace s)) = []"
    by (simp add: trim_def)
  also have "\<dots> \<longleftrightarrow> (\<forall>x\<in>set (dropWhile isWhiteSpace s). isWhiteSpace x)"
    by (simp add: dropWhile_eq_Nil_conv)
  also have "\<dots> \<longleftrightarrow> (\<forall>x\<in>set s. isWhiteSpace x)"
    by (rule dropWhile_all_iff)
  finally show ?thesis .
qed

lemma trim_nonempty: "trim s \<noteq> [] \<Longrightarrow> s \<noteq> []"
  by (auto simp: trim_eq_Nil_iff)

lemma validateNoEmptyString'_string:
  "validateNoEmptyString' scope name (JSString s) (Some ''string'') =
     (if s = [] then Inl (AssertionError (scope @ '': '' @ name @ '' is not defined''))
      else if trim s = [] then
        Inl (AssertionError (scope @ '': '' @ name @ '' cannot be empty string''))
      else Inr s)"
  by (simp add: validateNoEmptyString'_def validate'_def assert_def)

lemma validateNoEmptyString'_ok [simp]:
  "trim s \<noteq> [] \<Longrightarrow> validateNoEmptyString' scope name (JSString s) (Some ''string'') = Inr s"
  by (simp add: validateNoEmptyString'_string trim_nonempty)

lemma validateNoEmptyString'_blank:
  "s \<noteq> [] \<Longrightarrow> \<forall>ch\<in>set s. isWhiteSpace ch \<Longrightarrow>
   validateNoEmptyString' scope name (JSString s) (Some ''string'') =
     Inl (AssertionError (scope @ '': '' @ name @ '' cannot be empty string''))"
  by (simp add: validateNoEmptyString'_string trim_eq_Nil_iff)

lemma validate'_Array [simp]: "validate' scope name (JSArray gs) None = Inr ()"
  by (simp add: validate'_def assert_def)

lemma assert_True [simp]: "assert True m = Inr ()"
  by (simp add: assert_def)

section \<open>The database\<close>

lemma p_db_connected [simp]: "connectError d = None \<Longrightarrow> p_db d = Inr d"
  by (simp add: p_db_def)

lemma p_collection_connected [simp]: "connectError d = None \<Longrightarrow> p_collection d = Inr (tokens d)"
  by (simp add: p_collection_def getCollection_def)

lemma findMatchingTokens_connected [simp]:
  "connectError d = None \<Longrightarrow>
   findMatchingTokens d t = Inr (filter (\<lambda>doc. token doc = t) (tokens d))"
  by (simp add: findMatchingTokens_def)

lemma one_document:
  "then_p (cursorHasExactlyOneDoc c (Inr docs)) (getDocument (Inr docs)) =
     (case docs of [doc] \<Rightarrow> Inr (Some doc) | _ \<Rightarrow> Inl (DbError (UNEXPECTED_NUM_DOCS c)))"
  by (cases docs rule: remdups_adj.cases) (simp_all add: cursorHasExactlyOneDoc_def getDocument_def)

lemma findOneAndUpdate_one:
  "filter q xs = [y] \<Longrightarrow>
   findOneAndUpdate q upd xs = (Some (upd y), map (\<lambda>x. if q x then upd x else x) xs)"
proof (induction xs)
  case Nil
  then show ?case by simp
next
  case (Cons x xs)
  show ?case
  proof (cases "q x")
    case True
    with Cons.prems have "x = y" and "filter q xs = []" by simp_all
    then have "map (\<lambda>x. if q x then upd x else x) xs = xs"
      by (simp add: filter_empty_conv map_idI)
    with True \<open>x = y\<close> show ?thesis by simp
  next
    case False
    with Cons show ?thesis by simp
  qed
qed

lemma findOneAndUpdate_all2:
  "list_all2 (\<lambda>x y. y = x \<or> y = upd x) xs (snd (findOneAndUpdate q upd xs))"
  by (induction xs) (auto split: prod.splits simp: list_all2_same)

section \<open>Facts about the example values\<close>

lemma example_strings_not_blank:
  "trim alice \<noteq> []" "trim bob \<noteq> []" "trim token_A \<noteq> []" "trim token_B \<noteq> []"
  "trim (str ''lost'') \<noteq> []" "trim (str ''none'') \<noteq> []"
  by (simp_all add: trim_eq_Nil_iff isWhiteSpace_def alice_def bob_def token_A_def token_B_def
        str_def chr_def)

lemma example_db_connected: "connectError example_db = None"
  by (simp add: example_db_def)

lemma example_db_tokens:
  "filter (\<lambda>doc. token doc = token_A) (tokens example_db) = [doc_A]"
  "filter (\<lambda>doc. token doc = token_B) (tokens example_db) = [doc_B]"
  "filter (\<lambda>doc. token doc = str ''none'') (tokens example_db) = []"
  by (simp_all add: example_db_def doc_A_def doc_B_def token_A_def token_B_def str_def chr_def)

lemma example_docs:
  "user doc_A = Some alice" "user doc_B = Some alice" "alice \<noteq> bob" "bob \<noteq> alice"
  "status doc_A = str ''valid''" "status doc_B = str ''revoked''"
  "TOKEN_STATUS_REVOKED example_constants = str ''revoked''"
  "TOKEN_STATUS_VALID example_constants = str ''valid''"
  by (simp_all add: doc_A_def doc_B_def alice_def bob_def str_def chr_def example_constants_def)


section \<open>The token generator\<close>

lemma base64_alphabet_length: "length base64_alphabet = 64"
  by (simp add: base64_alphabet_def str_def)

lemma b64_in_alphabet: "n < 64 \<Longrightarrow> b64 n \<in> set base64_alphabet"
  by (simp add: b64_def base64_alphabet_length)

lemma base64_alphabet_replaced:
  "\<forall>x\<in>set base64_alphabet.
     url_safe ((\<lambda>ch. if ch = chr CHR ''+'' then chr CHR ''-'' else ch)
                ((\<lambda>ch. if ch = chr CHR ''/'' then chr CHR ''_'' else ch) x))"
  by (simp add: base64_alphabet_def str_def chr_def url_safe_def)

lemma unat_byte: "unat (a :: 8 word) < 256"
  using unsigned_less [of a, where ?'a = nat] by simp

lemma toString_base64_triples:
  "length bs mod 3 = 0 \<Longrightarrow>
   length (toString_base64 bs) = 4 * (length bs div 3) \<and>
   set (toString_base64 bs) \<subseteq> set base64_alphabet"
proof (induction bs rule: toString_base64.induct)
  case 1
  then show ?case by simp
next
  case (2 a)
  then show ?case by simp
next
  case (3 a b)
  then show ?case by simp
next
  case (4 a b c rest)
  have r: "length rest mod 3 = 0"
    using "4.prems" by (simp add: mod_Suc split: if_splits)
  have l: "length (a # b # c # rest) div 3 = Suc (length rest div 3)"
    by simp
  have s: "unat a div 4 < 64" "unat a mod 4 * 16 + unat b div 16 < 64"
    "unat b mod 16 * 4 + unat c div 64 < 64" "unat c mod 64 < 64"
    using unat_byte [of a] unat_byte [of b] unat_byte [of c] by simp_all
  have m: "b64 (unat a div 4) \<in> set base64_alphabet"
    "b64 (unat a mod 4 * 16 + unat b div 16) \<in> set base64_alphabet"
    "b64 (unat b mod 16 * 4 + unat c div 64) \<in> set base64_alphabet"
    "b64 (unat c mod 64) \<in> set base64_alphabet"
    using s by (simp_all add: b64_in_alphabet)
  from "4.IH" [OF r] m show ?case
    unfolding l by (simp add: Let_def)
qed

lemma generateTokenPromise_Some:
  "generateTokenPromise (Some rnd) =
     Inr (replace (chr CHR ''+'') (chr CHR ''-'')
           (replace (chr CHR ''/'') (chr CHR ''_'') (toString_base64 (map rnd [0..<24]))))"
  by (simp add: generateTokenPromise_def randomBytes_def)

lemma generateTokenPromise_format:
  assumes "generateTokenPromise src = Inr tok"
  shows "length tok = 32 \<and> (\<forall>ch\<in>set tok. url_safe ch)"
proof -
  from assms obtain rnd where src: "src = Some rnd"
    by (cases src) (simp_all add: generateTokenPromise_def randomBytes_def)
  let ?buf = "map rnd [0..<24]"
  have b: "length (toString_base64 ?buf) = 32" "set (toString_base64 ?buf) \<subseteq> set base64_alphabet"
    using toString_base64_triples [of ?buf] by simp_all
  have tok: "tok = replace (chr CHR ''+'') (chr CHR ''-'')
      (replace (chr CHR ''/'') (chr CHR ''_'') (toString_base64 ?buf))"
    using assms by (simp add: src generateTokenPromise_Some)
  have "length tok = 32"
    by (simp add: tok replace_def b(1))
  moreover have "url_safe ch" if "ch \<in> set tok" for ch
  proof -
    from that obtain x where x: "x \<in> set (toString_base64 ?buf)"
      and ch: "ch = (\<lambda>ch. if ch = chr CHR ''+'' then chr CHR ''-'' else ch)
                 ((\<lambda>ch. if ch = chr CHR ''/'' then chr CHR ''_'' else ch) x)"
      by (auto simp: tok replace_def)
    from x b(2) have "x \<in> set base64_alphabet" by auto
    with base64_alphabet_replaced ch show ?thesis by blast
  qed
  ultimately show ?thesis by blast
qed

lemma url_safe_not_white: "url_safe ch \<Longrightarrow> \<not> isWhiteSpace ch"
  by (auto simp: url_safe_def isWhiteSpace_def chr_def)

lemma generateTokenPromise_not_blank:
  assumes "generateTokenPromise src = Inr tok"
  shows "trim tok \<noteq> []"
proof -
  from generateTokenPromise_format [OF assms]
  have "length tok = 32" and u: "\<forall>ch\<in>set tok. url_safe ch" by simp_all
  then obtain ch where "ch \<in> set tok" by (cases tok) auto
  with u have "ch \<in> set tok" "\<not> isWhiteSpace ch" by (auto dest: url_safe_not_white)
  then show ?thesis by (auto simp: trim_eq_Nil_iff)
qed

lemma base64_alphabet_replaced_distinct:
  "distinct (map (\<lambda>ch. if ch = chr CHR ''+'' then chr CHR ''-'' else ch)
              (map (\<lambda>ch. if ch = chr CHR ''/'' then chr CHR ''_'' else ch) base64_alphabet))"
  by (simp add: base64_alphabet_def str_def chr_def)

lemma replace_replace:
  "replace a b (replace a' b' s) =
     map ((\<lambda>ch. if ch = a then b else ch) \<circ> (\<lambda>ch. if ch = a' then b' else ch)) s"
  by (simp only: replace_def map_map)

lemma b64_replaced_inj:
  assumes k: "k = (\<lambda>ch. if ch = chr CHR ''+'' then chr CHR ''-'' else ch) \<circ>
                  (\<lambda>ch. if ch = chr CHR ''/'' then chr CHR ''_'' else ch)"
    and "n < 64" and "m < 64" and "k (b64 n) = k (b64 m)"
  shows "n = m"
proof -
  have d: "distinct (map k base64_alphabet)"
    using base64_alphabet_replaced_distinct by (simp only: k map_map)
  have l: "n < length (map k base64_alphabet)" "m < length (map k base64_alphabet)"
    using assms(2,3) by (simp_all only: length_map base64_alphabet_length)
  have e: "map k base64_alphabet ! n = map k base64_alphabet ! m"
    using assms(2-4) by (simp only: nth_map base64_alphabet_length b64_def)
  from nth_eq_iff_index_eq [OF d l] have
    "map k base64_alphabet ! n = map k base64_alphabet ! m \<Longrightarrow> n = m"
    by (rule iffD1)
  then show ?thesis
    using e .
qed

lemma sextets_inj:
  fixes x y z x' y' z' :: nat
  assumes "x < 256" "y < 256" "z < 256" "x' < 256" "y' < 256" "z' < 256"
    and "x div 4 = x' div 4"
    and "x mod 4 * 16 + y div 16 = x' mod 4 * 16 + y' div 16"
    and "y mod 16 * 4 + z div 64 = y' mod 16 * 4 + z' div 64"
    and "z mod 64 = z' mod 64"
  shows "x = x' \<and> y = y' \<and> z = z'"
proof -
  have a: "x mod 4 < 4" "x' mod 4 < 4" "y div 16 < 16" "y' div 16 < 16"
    "y mod 16 < 16" "y' mod 16 < 16" "z div 64 < 4" "z' div 64 < 4"
    using assms(1-6) by simp_all
  from assms(8) a have b1: "x mod 4 = x' mod 4" by linarith
  with assms(8) have b2: "y div 16 = y' div 16" by simp
  from assms(9) a have c1: "y mod 16 = y' mod 16" by linarith
  with assms(9) have c2: "z div 64 = z' div 64" by simp
  note b = b1 b2 and c = c1 c2
  have "x = x div 4 * 4 + x mod 4" "x' = x' div 4 * 4 + x' mod 4" by simp_all
  with assms(7) b(1) have "x = x'" by simp
  moreover have "y = y div 16 * 16 + y mod 16" "y' = y' div 16 * 16 + y' mod 16" by simp_all
  with b(2) c(1) have "y = y'" by simp
  moreover have "z = z div 64 * 64 + z mod 64" "z' = z' div 64 * 64 + z' mod 64" by simp_all
  with c(2) assms(10) have "z = z'" by simp
  ultimately show ?thesis by simp
qed

lemma toString_base64_inj:
  assumes k: "k = (\<lambda>ch. if ch = chr CHR ''+'' then chr CHR ''-'' else ch) \<circ>
                  (\<lambda>ch. if ch = chr CHR ''/'' then chr CHR ''_'' else ch)"
  shows "length bs = length bs' \<Longrightarrow> length bs mod 3 = 0 \<Longrightarrow>
         map k (toString_base64 bs) = map k (toString_base64 bs') \<Longrightarrow> bs = bs'"
proof (induction bs arbitrary: bs' rule: toString_base64.induct)
  case 1
  then show ?case by simp
next
  case (2 a)
  then show ?case by simp
next
  case (3 a b)
  then show ?case by simp
next
  case (4 a b c rest)
  from "4.prems"(1) obtain a' b' c' rest' where bs': "bs' = a' # b' # c' # rest'"
    and len: "length rest = length rest'"
    by (cases bs' rule: toString_base64.cases) auto
  have r: "length rest mod 3 = 0"
    using "4.prems"(2) by (simp add: mod_Suc split: if_splits)
  note ub = unat_byte [of a] unat_byte [of b] unat_byte [of c]
    unat_byte [of a'] unat_byte [of b'] unat_byte [of c']
  have s: "unat a div 4 < 64" "unat a mod 4 * 16 + unat b div 16 < 64"
    "unat b mod 16 * 4 + unat c div 64 < 64" "unat c mod 64 < 64"
    "unat a' div 4 < 64" "unat a' mod 4 * 16 + unat b' div 16 < 64"
    "unat b' mod 16 * 4 + unat c' div 64 < 64" "unat c' mod 64 < 64"
    using ub by simp_all
  have eq: "map k (toString_base64 (a # b # c # rest)) =
      map k (toString_base64 (a' # b' # c' # rest'))"
    using "4.prems"(3) by (simp only: bs')
  have k1: "k (b64 (unat a div 4)) = k (b64 (unat a' div 4))"
    and k2: "k (b64 (unat a mod 4 * 16 + unat b div 16)) =
             k (b64 (unat a' mod 4 * 16 + unat b' div 16))"
    and k3: "k (b64 (unat b mod 16 * 4 + unat c div 64)) =
             k (b64 (unat b' mod 16 * 4 + unat c' div 64))"
    and k4: "k (b64 (unat c mod 64)) = k (b64 (unat c' mod 64))"
    and rest: "map k (toString_base64 rest) = map k (toString_base64 rest')"
    using eq
    by (simp_all only: toString_base64.simps Let_def map_append list.map append.simps
          list.inject)
  have e1: "unat a div 4 = unat a' div 4"
    by (rule b64_replaced_inj [OF k s(1) s(5) k1])
  have e2: "unat a mod 4 * 16 + unat b div 16 = unat a' mod 4 * 16 + unat b' div 16"
    by (rule b64_replaced_inj [OF k s(2) s(6) k2])
  have e3: "unat b mod 16 * 4 + unat c div 64 = unat b' mod 16 * 4 + unat c' div 64"
    by (rule b64_replaced_inj [OF k s(3) s(7) k3])
  have e4: "unat c mod 64 = unat c' mod 64"
    by (rule b64_replaced_inj [OF k s(4) s(8) k4])
  from sextets_inj [OF ub e1 e2 e3 e4]
  have "a = a'" "b = b'" "c = c'"
    by (simp_all add: word_unat_eq_iff)
  moreover from "4.IH" [OF len r rest] have "rest = rest'" .
  ultimately show ?case
    by (simp add: bs')
qed

lemma generateTokenPromise_inj:
  assumes "generateTokenPromise (Some rnd) = Inr tok"
    and "generateTokenPromise (Some rnd') = Inr tok"
  shows "map rnd [0..<24] = map rnd' [0..<24]"
proof -
  let ?k = "(\<lambda>ch. if ch = chr CHR ''+'' then chr CHR ''-'' else ch) \<circ>
            (\<lambda>ch. if ch = chr CHR ''/'' then chr CHR ''_'' else ch)"
  have "map ?k (toString_base64 (map rnd [0..<24])) =
        map ?k (toString_base64 (map rnd' [0..<24]))"
    using assms by (simp only: generateTokenPromise_Some replace_replace sum.inject)
  moreover have "length (map rnd [0..<24]) = length (map rnd' [0..<24])"
    "length (map rnd [0..<24]) mod 3 = 0"
    by simp_all
  ultimately show ?thesis
    by (rule toString_base64_inj [OF refl, rotated 2])
qed

lemma base64_alphabet_arith:
  "base64_alphabet =
     map (\<lambda>n. of_nat (if n < 26 then 65 + n else if n < 52 then 71 + n
                        else if n < 62 then n - 4 else if n = 62 then 43 else 47))
       [0..<64]"
  by (simp add: base64_alphabet_def str_def chr_def upt_rec [of _ "numeral _"])

lemma b64_arith:
  "n < 64 \<Longrightarrow>
   b64 n = of_nat (if n < 26 then 65 + n else if n < 52 then 71 + n
                   else if n < 62 then n - 4 else if n = 62 then 43 else 47)"
  unfolding b64_def by (subst base64_alphabet_arith) (simp del: upt.simps)

lemma example_bytes_24:
  "map example_bytes [0..<24] =
     [250, 31, 68, 105, 142, 179, 216, 253, 34, 71, 108, 145, 182, 219, 0, 37, 74, 111, 148,
      185, 222, 3, 40, 77]"
  by (simp add: upt_rec [of _ "numeral _"] example_bytes_def)

lemma example_token:
  "replace (chr CHR ''+'') (chr CHR ''-'')
     (replace (chr CHR ''/'') (chr CHR ''_'') (toString_base64 (map example_bytes [0..<24]))) =
   str ''-h9EaY6z2P0iR2yRttsAJUpvlLneAyhN''"
  unfolding example_bytes_24
  by (simp add: replace_def b64_arith str_def chr_def)

section \<open>Revocation\<close>

lemma revokeToken_valid_args:
  assumes "connectError d = None" "trim u \<noteq> []" "trim t \<noteq> []" "trim j \<noteq> []"
  shows "revokeToken c now d (JSString u) (JSString t) (JSString j) =
     (case filter (\<lambda>doc. token doc = t) (tokens d) of
        [doc] \<Rightarrow>
          if Some u = user doc then
            updateToken' d doc (\<lambda>x.
              x\<lparr>status := TOKEN_STATUS_REVOKED c,
                hist := hist x @ [\<lparr>time = format now, operating_user = None,
                                   operation = None, reason = j\<rparr>]\<rparr>)
          else (Inl (Error (USER_NOT_TOKEN_OWNER c)), d)
      | _ \<Rightarrow> (Inl (DbError (UNEXPECTED_NUM_DOCS c)), d))"
  using assms
  by (cases "filter (\<lambda>doc. token doc = t) (tokens d)" rule: remdups_adj.cases)
     (simp_all add: revokeToken_def one_document)

lemma updateToken'_one:
  assumes "connectError d = None" "filter (\<lambda>x. token x = token doc) (tokens d) = [doc]"
  shows "updateToken' d doc upd =
     (Inr (Some (upd doc)),
      d\<lparr>tokens := map (\<lambda>x. if token x = token doc then upd x else x) (tokens d)\<rparr>)"
  using assms by (simp add: updateToken'_def findOneAndUpdate_one)

lemma filter_singleton_token:
  "filter (\<lambda>doc. token doc = t) xs = [doc] \<Longrightarrow> token doc = t"
proof -
  assume a: "filter (\<lambda>doc. token doc = t) xs = [doc]"
  have "doc \<in> set (filter (\<lambda>doc. token doc = t) xs)"
    by (simp add: a)
  then show ?thesis by simp
qed

lemma filter_singleton_only:
  assumes "filter (\<lambda>doc. token doc = t) xs = [doc]" "x \<in> set xs" "token x = t"
  shows "x = doc"
proof -
  have "x \<in> set (filter (\<lambda>doc. token doc = t) xs)"
    using assms(2,3) by simp
  then show ?thesis by (simp add: assms(1))
qed

lemma revokeToken_not_one:
  assumes "connectError d = None" and "trim u \<noteq> []" and "trim t \<noteq> []" and "trim j \<noteq> []"
  and "length (filter (\<lambda>doc. token doc = t) (tokens d)) \<noteq> 1"
  shows "revokeToken c now d (JSString u) (JSString t) (JSString j) =
      (Inl (DbError (UNEXPECTED_NUM_DOCS c)), d)"
  using assms(5)
    by (cases "filter (\<lambda>doc. token doc = t) (tokens d)" rule: remdups_adj.cases)
       (simp_all add: revokeToken_valid_args [OF assms(1-4)])

lemma revokeToken_not_owner:
  assumes "connectError d = None" and "trim u \<noteq> []" and "trim t \<noteq> []" and "trim j \<noteq> []"
  and  "filter (\<lambda>doc. token doc = t) (tokens d) = [doc]" "user doc \<noteq> Some u"
  shows "revokeToken c now d (JSString u) (JSString t) (JSString j) =
      (Inl (Error (USER_NOT_TOKEN_OWNER c)), d)"
proof -
  have "Some u \<noteq> user doc" using assms(6) by auto
  then show ?thesis
    by (simp add: revokeToken_valid_args [OF assms(1-4)] assms(5))
qed

lemma revokeToken_owner:
  assumes "connectError d = None" and "trim u \<noteq> []" and "trim t \<noteq> []" and "trim j \<noteq> []"
  and  a: "filter (\<lambda>doc. token doc = t) (tokens d) = [doc]" and b: "user doc = Some u"
  shows "revokeToken c now d (JSString u) (JSString t) (JSString j) =
           (Inr (Some (doc\<lparr>status := TOKEN_STATUS_REVOKED c,
                         hist := hist doc @ [\<lparr>time = format now, operating_user = None,
                                              operation = None, reason = j\<rparr>]\<rparr>)),
            d\<lparr>tokens := map (\<lambda>x. if token x = t then
                        doc\<lparr>status := TOKEN_STATUS_REVOKED c,
                         hist := hist doc @ [\<lparr>time = format now, operating_user = None,
                                              operation = None, reason = j\<rparr>]\<rparr> else x) (tokens d)\<rparr>)"
proof -
  let ?upd = "\<lambda>x. x\<lparr>status := TOKEN_STATUS_REVOKED c,
                     hist := hist x @ [\<lparr>time = format now, operating_user = None,
                                        operation = None, reason = j\<rparr>]\<rparr>"
  from a have tok: "token doc = t" by (rule filter_singleton_token)
  from a have one: "\<And>x. x \<in> set (tokens d) \<Longrightarrow> token x = t \<Longrightarrow> x = doc"
    by (rule filter_singleton_only)
  have m: "map (\<lambda>x. if token x = t then ?upd x else x) (tokens d) =
        map (\<lambda>x. if token x = t then ?upd doc else x) (tokens d)"
    by (rule map_cong) (auto dest: one)
  have a': "filter (\<lambda>x. token x = token doc) (tokens d) = [doc]"
    using a tok by simp
  have "revokeToken c now d (JSString u) (JSString t) (JSString j) = updateToken' d doc ?upd"
    by (simp add: revokeToken_valid_args [OF assms(1-4)] a b)
  also have "\<dots> = (Inr (Some (?upd doc)),
         d\<lparr>tokens := map (\<lambda>x. if token x = token doc then ?upd x else x) (tokens d)\<rparr>)"
    by (rule updateToken'_one [OF assms(1) a'])
  finally show ?thesis
    unfolding tok m .
qed

text \<open>
  C3: a call of \<open>revokeToken\<close> with three strings that are not blank, on a connected
  database. When the number of documents with the token is not one, it rejects with the
  \<open>DbError\<close> of \<open>UNEXPECTED_NUM_DOCS\<close>; when the one document with the token has another
  \<open>user\<close> (or none), it rejects with the \<open>Error\<close> of \<open>USER_NOT_TOKEN_OWNER\<close>; in both cases
  the database is as it was. Otherwise it sets the status of that document to
  \<open>TOKEN_STATUS_REVOKED\<close>, appends one entry to its \<open>hist\<close>, leaves every other document
  alone and fulfils with the document as updated.
\<close>

theorem revokeToken_outcomes:
  assumes "connectError d = None" and "trim u \<noteq> []" and "trim t \<noteq> []" and "trim j \<noteq> []"
  shows "(length (filter (\<lambda>doc. token doc = t) (tokens d)) \<noteq> 1 \<longrightarrow>
            revokeToken c now d (JSString u) (JSString t) (JSString j) =
              (Inl (DbError (UNEXPECTED_NUM_DOCS c)), d)) \<and>
         (\<forall>doc. filter (\<lambda>doc. token doc = t) (tokens d) = [doc] \<and> user doc \<noteq> Some u \<longrightarrow>
            revokeToken c now d (JSString u) (JSString t) (JSString j) =
              (Inl (Error (USER_NOT_TOKEN_OWNER c)), d)) \<and>
         (\<forall>doc. filter (\<lambda>doc. token doc = t) (tokens d) = [doc] \<and> user doc = Some u \<longrightarrow>
            (\<exists>doc'. revokeToken c now d (JSString u) (JSString t) (JSString j) =
                (Inr (Some doc'),
                 d\<lparr>tokens := map (\<lambda>x. if token x = t then doc' else x) (tokens d)\<rparr>) \<and>
              doc' = doc\<lparr>status := TOKEN_STATUS_REVOKED c,
                         hist := hist doc @ [\<lparr>time = format now, operating_user = None,
                                              operation = None, reason = j\<rparr>]\<rparr> \<and>
              status doc' = TOKEN_STATUS_REVOKED c \<and>
              length (hist doc') = length (hist doc) + 1))"
proof (intro conjI allI impI)
  assume "length (filter (\<lambda>doc. token doc = t) (tokens d)) \<noteq> 1"
  then show "revokeToken c now d (JSString u) (JSString t) (JSString j) =
      (Inl (DbError (UNEXPECTED_NUM_DOCS c)), d)"
    by (rule revokeToken_not_one [OF assms])
next
  fix doc
  assume "filter (\<lambda>doc. token doc = t) (tokens d) = [doc] \<and> user doc \<noteq> Some u"
  then show "revokeToken c now d (JSString u) (JSString t) (JSString j) =
      (Inl (Error (USER_NOT_TOKEN_OWNER c)), d)"
    using revokeToken_not_owner [OF assms] by blast
next
  fix doc
  assume a: "filter (\<lambda>doc. token doc = t) (tokens d) = [doc] \<and> user doc = Some u"
  then have "revokeToken c now d (JSString u) (JSString t) (JSString j) =
           (Inr (Some (doc\<lparr>status := TOKEN_STATUS_REVOKED c,
                         hist := hist doc @ [\<lparr>time = format now, operating_user = None,
                                              operation = None, reason = j\<rparr>]\<rparr>)),
            d\<lparr>tokens := map (\<lambda>x. if token x = t then
                        doc\<lparr>status := TOKEN_STATUS_REVOKED c,
                         hist := hist doc @ [\<lparr>time = format now, operating_user = None,
                                              operation = None, reason = j\<rparr>]\<rparr> else x) (tokens d)\<rparr>)"
    using revokeToken_owner [OF assms] by blast
  then show "\<exists>doc'. revokeToken c now d (JSString u) (JSString t) (JSString j) =
                (Inr (Some doc'),
                 d\<lparr>tokens := map (\<lambda>x. if token x = t then doc' else x) (tokens d)\<rparr>) \<and>
              doc' = doc\<lparr>status := TOKEN_STATUS_REVOKED c,
                         hist := hist doc @ [\<lparr>time = format now, operating_user = None,
                                              operation = None, reason = j\<rparr>]\<rparr> \<and>
              status doc' = TOKEN_STATUS_REVOKED c \<and>
              length (hist doc') = length (hist doc) + 1"
    by simp
qed

text \<open>The three outcomes on the example database.\<close>

theorem revokeToken_outcomes_witness:
  "revokeToken example_constants 1500000200123 example_db
     (JSString alice) (JSString (str ''none'')) (JSString (str ''lost'')) =
     (Inl (DbError (UNEXPECTED_NUM_DOCS example_constants)), example_db) \<and>
   revokeToken example_constants 1500000200123 example_db
     (JSString bob) (JSString token_A) (JSString (str ''lost'')) =
     (Inl (Error (USER_NOT_TOKEN_OWNER example_constants)), example_db) \<and>
   fst (revokeToken example_constants 1500000200123 example_db
     (JSString alice) (JSString token_A) (JSString (str ''lost''))) =
     Inr (Some (doc_A\<lparr>status := str ''revoked'',
                      hist := hist doc_A @ [\<lparr>time = 1500000200000, operating_user = None,
                                             operation = None, reason = str ''lost''\<rparr>]\<rparr>))"
proof -
  note ok = example_db_connected example_strings_not_blank
  have "revokeToken example_constants 1500000200123 example_db
     (JSString alice) (JSString (str ''none'')) (JSString (str ''lost'')) =
     (Inl (DbError (UNEXPECTED_NUM_DOCS example_constants)), example_db)"
    using revokeToken_outcomes [of example_db alice "str ''none''" "str ''lost''"
        example_constants 1500000200123]
    by (simp add: ok example_db_tokens)
  moreover have "revokeToken example_constants 1500000200123 example_db
     (JSString bob) (JSString token_A) (JSString (str ''lost'')) =
     (Inl (Error (USER_NOT_TOKEN_OWNER example_constants)), example_db)"
    using revokeToken_outcomes [of example_db bob token_A "str ''lost''"
        example_constants 1500000200123]
    by (simp add: ok example_db_tokens example_docs)
  moreover have "fst (revokeToken example_constants 1500000200123 example_db
     (JSString alice) (JSString token_A) (JSString (str ''lost''))) =
     Inr (Some (doc_A\<lparr>status := str ''revoked'',
                      hist := hist doc_A @ [\<lparr>time = 1500000200000, operating_user = None,
                                             operation = None, reason = str ''lost''\<rparr>]\<rparr>))"
    using revokeToken_outcomes [of example_db alice token_A "str ''lost''"
        example_constants 1500000200123]
    by (simp add: ok example_db_tokens example_docs format_def)
  ultimately show ?thesis by simp
qed




section \<open>Creation\<close>

lemma createToken_valid_args:
  assumes "connectError d = None" and "trim u \<noteq> []" and "trim j \<noteq> []"
    and "generateTokenPromise src = Inr tok"
  shows "createToken c src now d (JSString u) (JSString j) =
           (Inr (buildToken' c now tok u j), d\<lparr>tokens := tokens d @ [buildToken' c now tok u j]\<rparr>)"
  using assms by (simp add: createToken_def insertOne_def Let_def)

lemma createToken_Inr:
  assumes "createToken c src now d usr justification = (Inr doc, d')"
  shows "\<exists>tok u j. usr = JSString u \<and> justification = JSString j \<and>
           generateTokenPromise src = Inr tok \<and> doc = buildToken' c now tok u j \<and>
           d' = d\<lparr>tokens := tokens d @ [doc]\<rparr>"
proof -
  from assms obtain u where u: "validateNoEmptyString' ''createToken'' ''user'' usr (Some ''string'') = Inr u"
    by (cases "validateNoEmptyString' ''createToken'' ''user'' usr (Some ''string'')")
       (auto simp: createToken_def)
  from assms u obtain j where j: "validateNoEmptyString' ''createToken'' ''justification''
      justification (Some ''string'') = Inr j"
    by (cases "validateNoEmptyString' ''createToken'' ''justification'' justification
          (Some ''string'')") (auto simp: createToken_def)
  from assms u j obtain tok where tok: "generateTokenPromise src = Inr tok"
    by (cases "generateTokenPromise src") (auto simp: createToken_def)
  from assms u j tok have "doc = buildToken' c now tok u j \<and> d' = d\<lparr>tokens := tokens d @ [doc]\<rparr>"
    by (cases "p_collection d") (auto simp: createToken_def insertOne_def Let_def)
  moreover from u have "usr = JSString u"
    by (cases usr) (auto simp: validateNoEmptyString'_def validate'_def assert_def split: if_splits)
  moreover from j have "justification = JSString j"
    by (cases justification)
       (auto simp: validateNoEmptyString'_def validate'_def assert_def split: if_splits)
  ultimately show ?thesis using tok by blast
qed

lemma format_add_seconds: "format (m + 1000 * k) = format m + 1000 * k"
  by (simp add: format_def algebra_simps)

lemma format_bounds: "m - 1000 < format m \<and> format m \<le> m"
proof -
  have "m = m div 1000 * 1000 + m mod 1000" by simp
  moreover have "0 \<le> m mod 1000" "m mod 1000 < 1000" by simp_all
  ultimately show ?thesis unfolding format_def by linarith
qed

text \<open>
  C6: with a duration of 7 days in the constants, a connected database and a random source
  that is available, \<open>createToken\<close> for a user and a justification that are not blank
  inserts the document it is fulfilled with. The document has the status
  \<open>TOKEN_STATUS_VALID\<close> and one entry in \<open>hist\<close>; its expiry time is the time of that entry
  plus 7 days, which is less than one second before the instant of the call plus 7 days; its
  token is the base64 text of the 24 random bytes with \<open>/\<close> and \<open>+\<close> replaced, 32
  characters out of letters, digits, \<open>-\<close> and \<open>_\<close>. The token determines the bytes: a call
  that is fulfilled with the same token has drawn the same 24 bytes.
\<close>

theorem createToken_record:
  assumes "connectError d = None" and "trim u \<noteq> []" and "trim j \<noteq> []"
    and "TOKEN_DURATION c = 7" and "TOKEN_DURATION_UNIT c = days"
  shows "\<exists>doc e x.
           createToken c (Some rnd) now d (JSString u) (JSString j) =
             (Inr doc, d\<lparr>tokens := tokens d @ [doc]\<rparr>) \<and>
           status doc = TOKEN_STATUS_VALID c \<and>
           user doc = Some u \<and>
           length (hist doc) = 1 \<and>
           hist doc = [e] \<and> time e = format now \<and> reason e = j \<and>
           expiryTime doc = Some x \<and>
           x = time e + 7 * 86400000 \<and>
           now + 7 * 86400000 - 1000 < x \<and> x \<le> now + 7 * 86400000 \<and>
           token doc = replace (chr CHR ''+'') (chr CHR ''-'')
                         (replace (chr CHR ''/'') (chr CHR ''_'')
                            (toString_base64 (map rnd [0..<24]))) \<and>
           length (token doc) = 32 \<and>
           (\<forall>ch\<in>set (token doc). url_safe ch) \<and>
           (\<forall>rnd' now' d' u' j' doc'.
              fst (createToken c (Some rnd') now' d' u' j') = Inr doc' \<and>
              token doc' = token doc \<longrightarrow>
              map rnd' [0..<24] = map rnd [0..<24])"
proof -
  obtain tok where tok: "generateTokenPromise (Some rnd) = Inr tok"
    by (simp add: generateTokenPromise_Some)
  let ?doc = "buildToken' c now tok u j"
  have cr: "createToken c (Some rnd) now d (JSString u) (JSString j) =
      (Inr ?doc, d\<lparr>tokens := tokens d @ [?doc]\<rparr>)"
    by (rule createToken_valid_args [OF assms(1-3) tok])
  have dur: "duration (TOKEN_DURATION c) (TOKEN_DURATION_UNIT c) = 1000 * 604800"
    by (simp add: assms(4,5) duration_def)
  have "format (now + 1000 * 604800) = format now + 1000 * 604800"
    by (rule format_add_seconds)
  then have ex: "expiryTime ?doc = Some (format now + 7 * 86400000)"
    by (simp add: buildToken'_def dur)
  have bounds: "now + 7 * 86400000 - 1000 < format now + 7 * 86400000"
    "format now + 7 * 86400000 \<le> now + 7 * 86400000"
    using format_bounds [of now] by simp_all
  have t: "token ?doc = tok"
    by (simp add: buildToken'_def)
  have fmt: "length tok = 32" "\<forall>ch\<in>set tok. url_safe ch"
    using generateTokenPromise_format [OF tok] by simp_all
  have tk: "tok = replace (chr CHR ''+'') (chr CHR ''-'')
      (replace (chr CHR ''/'') (chr CHR ''_'') (toString_base64 (map rnd [0..<24])))"
    using tok by (simp add: generateTokenPromise_Some)
  have h: "hist ?doc = [\<lparr>time = format now, operating_user = None, operation = None,
      reason = j\<rparr>]" "status ?doc = TOKEN_STATUS_VALID c" "user ?doc = Some u"
    by (simp_all add: buildToken'_def)
  have inj: "map rnd' [0..<24] = map rnd [0..<24]"
    if "fst (createToken c (Some rnd') now' d' u' j') = Inr doc' \<and> token doc' = token ?doc"
    for rnd' now' d' u' j' doc'
  proof -
    from that have "createToken c (Some rnd') now' d' u' j' =
        (Inr doc', snd (createToken c (Some rnd') now' d' u' j'))"
      by (metis prod.collapse)
    from createToken_Inr [OF this] obtain tok' u'' j'' where
      "generateTokenPromise (Some rnd') = Inr tok'" "doc' = buildToken' c now' tok' u'' j''"
      by blast
    with that t have "generateTokenPromise (Some rnd') = Inr tok"
      by (simp add: buildToken'_def)
    then show ?thesis
      using tok by (rule generateTokenPromise_inj)
  qed
  have main: "createToken c (Some rnd) now d (JSString u) (JSString j) =
             (Inr ?doc, d\<lparr>tokens := tokens d @ [?doc]\<rparr>) \<and>
           status ?doc = TOKEN_STATUS_VALID c \<and>
           user ?doc = Some u \<and>
           length (hist ?doc) = 1 \<and>
           hist ?doc = [\<lparr>time = format now, operating_user = None, operation = None,
             reason = j\<rparr>] \<and>
           time \<lparr>time = format now, operating_user = None, operation = None,
             reason = j\<rparr> = format now \<and>
           reason \<lparr>time = format now, operating_user = None, operation = None,
             reason = j\<rparr> = j \<and>
           expiryTime ?doc = Some (format now + 7 * 86400000) \<and>
           format now + 7 * 86400000 =
             time \<lparr>time = format now, operating_user = None, operation = None,
               reason = j\<rparr> + 7 * 86400000 \<and>
           now + 7 * 86400000 - 1000 < format now + 7 * 86400000 \<and>
           format now + 7 * 86400000 \<le> now + 7 * 86400000 \<and>
           token ?doc = replace (chr CHR ''+'') (chr CHR ''-'')
                         (replace (chr CHR ''/'') (chr CHR ''_'')
                            (toString_base64 (map rnd [0..<24]))) \<and>
           length (token ?doc) = 32 \<and>
           (\<forall>ch\<in>set (token ?doc). url_safe ch) \<and>
           (\<forall>rnd' now' d' u' j' doc'.
              fst (createToken c (Some rnd') now' d' u' j') = Inr doc' \<and>
              token doc' = token ?doc \<longrightarrow>
              map rnd' [0..<24] = map rnd [0..<24])"
    using cr ex bounds fmt tk h inj unfolding t by simp
  show ?thesis
    by (rule exI [of _ ?doc],
        rule exI [of _ "\<lparr>time = format now, operating_user = None, operation = None,
          reason = j\<rparr>"],
        rule exI [of _ "format now + 7 * 86400000"]) (rule main)
qed

text \<open>
  A token for Alice on the example database, from the example bytes.
\<close>

theorem createToken_record_witness:
  "\<exists>doc. createToken example_constants (Some example_bytes) 1500000000123 example_db
       (JSString alice) (JSString (str ''lost'')) =
       (Inr doc, example_db\<lparr>tokens := tokens example_db @ [doc]\<rparr>) \<and>
     status doc = str ''valid'' \<and>
     length (hist doc) = 1 \<and>
     expiryTime doc = Some 1500604800000 \<and>
     token doc = str ''-h9EaY6z2P0iR2yRttsAJUpvlLneAyhN'' \<and>
     length (token doc) = 32 \<and>
     list_all url_safe (token doc)"
proof -
  have c: "TOKEN_DURATION example_constants = 7" "TOKEN_DURATION_UNIT example_constants = days"
    by (simp_all add: example_constants_def)
  from createToken_record [OF example_db_connected example_strings_not_blank(1)
      example_strings_not_blank(5) c, of example_bytes 1500000000123]
  obtain doc e x where
    "createToken example_constants (Some example_bytes) 1500000000123 example_db
       (JSString alice) (JSString (str ''lost'')) =
       (Inr doc, example_db\<lparr>tokens := tokens example_db @ [doc]\<rparr>)"
    "status doc = TOKEN_STATUS_VALID example_constants"
    "length (hist doc) = 1" "hist doc = [e]" "time e = format 1500000000123"
    "expiryTime doc = Some x" "x = time e + 7 * 86400000"
    "token doc = replace (chr CHR ''+'') (chr CHR ''-'')
       (replace (chr CHR ''/'') (chr CHR ''_'') (toString_base64 (map example_bytes [0..<24])))"
    "length (token doc) = 32" "\<forall>ch\<in>set (token doc). url_safe ch"
    by blast
  then show ?thesis
    by (intro exI [of _ doc]) (simp add: example_docs format_def list_all_iff example_token)
qed

section \<open>The entries of the history\<close>

text \<open>
  C1: the entry that \<open>createToken\<close> writes and the entry that \<open>revokeToken\<close> appends have
  a time and a reason and nothing else: on the example database, for Alice, neither has an
  \<open>operating_user\<close> or an \<open>operation\<close>, which the tests of both functions expect to be the
  user and the kind of the operation.
\<close>

theorem hist_entries_without_operation:
  "map (\<lambda>e. (operating_user e, operation e, reason e))
     (hist (projr (fst (createToken example_constants (Some example_bytes) 1500000000123
        example_db (JSString alice) (JSString (str ''lost'')))))) =
     [(None, None, str ''lost'')] \<and>
   map (\<lambda>e. (operating_user e, operation e, reason e))
     (hist (the (projr (fst (revokeToken example_constants 1500000200123 example_db
        (JSString alice) (JSString token_A) (JSString (str ''lost''))))))) =
     [(None, None, str ''created''), (None, None, str ''lost'')]"
proof -
  obtain tok where tok: "generateTokenPromise (Some example_bytes) = Inr tok"
    by (simp add: generateTokenPromise_Some)
  have "fst (createToken example_constants (Some example_bytes) 1500000000123
        example_db (JSString alice) (JSString (str ''lost''))) =
      Inr (buildToken' example_constants 1500000000123 tok alice (str ''lost''))"
    by (simp add: createToken_valid_args [OF example_db_connected
          example_strings_not_blank(1) example_strings_not_blank(5) tok])
  moreover have "fst (revokeToken example_constants 1500000200123 example_db
        (JSString alice) (JSString token_A) (JSString (str ''lost''))) =
      Inr (Some (doc_A\<lparr>status := TOKEN_STATUS_REVOKED example_constants,
                      hist := hist doc_A @ [\<lparr>time = format 1500000200123,
                        operating_user = None, operation = None, reason = str ''lost''\<rparr>]\<rparr>))"
    by (simp add: revokeToken_owner [OF example_db_connected example_strings_not_blank(1)
          example_strings_not_blank(3) example_strings_not_blank(5) example_db_tokens(1)
          example_docs(1)])
  ultimately show ?thesis
    by (simp add: buildToken'_def doc_A_def)
qed

section \<open>Group membership\<close>

lemma indexOf_ge_minus_one: "indexOf xs v \<ge> - 1"
  by (induction xs) (auto simp: Let_def)

lemma indexOf_nonneg_iff: "indexOf xs v \<ge> 0 \<longleftrightarrow> v \<in> set xs"
proof (induction xs)
  case Nil
  then show ?case by simp
next
  case (Cons x xs)
  then show ?case
    using indexOf_ge_minus_one [of xs v] by (auto simp: Let_def)
qed

lemma every_indexOf: "list_all (\<lambda>val. indexOf ug val \<ge> 0) gs \<longleftrightarrow> set gs \<subseteq> set ug"
  by (auto simp: list_all_iff indexOf_nonneg_iff)

lemma validateUser_valid_args:
  assumes "connectError d = None" and "trim u \<noteq> []"
  shows "validateUser c d (JSArray gs) (JSString u) =
     (case filter (\<lambda>doc. user_id doc = u) (users d) of
        [doc] \<Rightarrow> Inr (case groups doc of None \<Rightarrow> False | Some ug \<Rightarrow> set gs \<subseteq> set ug)
      | _ \<Rightarrow> Inl (DbError (UNEXPECTED_NUM_DOCS c)))"
  using assms
  by (cases "filter (\<lambda>doc. user_id doc = u) (users d)" rule: remdups_adj.cases)
     (simp_all add: validateUser_def getCollection_def one_document every_indexOf
        split: option.splits)

text \<open>
  C2, as the code has it: for the one document of a user, \<open>validateUser\<close> is fulfilled with
  false when the document has no field \<open>groups\<close>, also when no group is required; when the
  document has the field, with an empty list or not, it is fulfilled with true exactly when
  every required group is an element of the list, whatever the order.
\<close>

theorem validateUser_membership:
  assumes "connectError d = None" and "trim u \<noteq> []"
    and "filter (\<lambda>doc. user_id doc = u) (users d) = [doc]"
  shows "validateUser c d (JSArray gs) (JSString u) =
           Inr (case groups doc of None \<Rightarrow> False | Some ug \<Rightarrow> set gs \<subseteq> set ug)"
  by (simp add: validateUser_valid_args [OF assms(1,2)] assms(3))

text \<open>
  Alice is in the groups 1, 2 and 5: she passes for the groups 5 and 1.
\<close>

theorem validateUser_membership_witness:
  "validateUser example_constants example_db (JSArray [str ''5'', str ''1'']) (JSString alice) =
     Inr True"
proof -
  have f: "filter (\<lambda>doc. user_id doc = alice) (users example_db) =
      [\<lparr>user_id = alice, groups = Some [str ''1'', str ''2'', str ''5'']\<rparr>]"
    by (simp add: example_db_def example_docs)
  show ?thesis
    using validateUser_membership [OF example_db_connected example_strings_not_blank(1) f,
        of example_constants "[str ''5'', str ''1'']"]
    by simp
qed

text \<open>
  The claim as the specification has it fails for a user whose list of groups is empty when
  no group is required: the code answers true.
\<close>

theorem validateUser_empty_groups_counterexample:
  "validateUser example_constants
     \<lparr>connectError = None, tokens = [], users = [\<lparr>user_id = alice, groups = Some []\<rparr>]\<rparr>
     (JSArray []) (JSString alice) = Inr True"
  by (simp add: validateUser_valid_args example_strings_not_blank)

section \<open>Validation of a token\<close>

lemma validateToken_valid_args:
  assumes "connectError d = None" and "trim t \<noteq> []"
  shows "validateToken c now d (JSArray gs) (JSString t) =
     (case filter (\<lambda>doc. token doc = t) (tokens d) of
        [doc] \<Rightarrow>
          if status doc = TOKEN_STATUS_REVOKED c then Inr False
          else if (case expiryTime doc of None \<Rightarrow> False | Some e \<Rightarrow> now > e) then Inr False
          else validateUser c d (JSArray gs) (field_value (user doc))
      | _ \<Rightarrow> Inl (DbError (UNEXPECTED_NUM_DOCS c)))"
  using assms
  by (cases "filter (\<lambda>doc. token doc = t) (tokens d)" rule: remdups_adj.cases)
     (simp_all add: validateToken_def one_document)

text \<open>
  C5: a call of \<open>validateToken\<close> with an array of groups and a token that is not blank, on a
  connected database. When the number of documents with the token is not one, it rejects
  with the \<open>DbError\<close> of \<open>UNEXPECTED_NUM_DOCS\<close>. For the one document with the token it
  answers, in this order: false when the status is \<open>TOKEN_STATUS_REVOKED\<close>; else false when
  the document has an expiry time and \<open>now\<close> is after it; else what \<open>validateUser\<close> gives
  for the same groups and the \<open>user\<close> of the document.
\<close>

theorem validateToken_order:
  assumes "connectError d = None" and "trim t \<noteq> []"
  shows "(length (filter (\<lambda>doc. token doc = t) (tokens d)) \<noteq> 1 \<longrightarrow>
            validateToken c now d (JSArray gs) (JSString t) =
              Inl (DbError (UNEXPECTED_NUM_DOCS c))) \<and>
         (\<forall>doc. filter (\<lambda>doc. token doc = t) (tokens d) = [doc] \<longrightarrow>
            validateToken c now d (JSArray gs) (JSString t) =
              (if status doc = TOKEN_STATUS_REVOKED c then Inr False
               else if \<exists>e. expiryTime doc = Some e \<and> now > e then Inr False
               else validateUser c d (JSArray gs) (field_value (user doc))))"
proof (intro conjI allI impI)
  assume "length (filter (\<lambda>doc. token doc = t) (tokens d)) \<noteq> 1"
  then show "validateToken c now d (JSArray gs) (JSString t) =
      Inl (DbError (UNEXPECTED_NUM_DOCS c))"
    by (cases "filter (\<lambda>doc. token doc = t) (tokens d)" rule: remdups_adj.cases)
       (simp_all add: validateToken_valid_args [OF assms])
next
  fix doc
  assume "filter (\<lambda>doc. token doc = t) (tokens d) = [doc]"
  then show "validateToken c now d (JSArray gs) (JSString t) =
      (if status doc = TOKEN_STATUS_REVOKED c then Inr False
       else if \<exists>e. expiryTime doc = Some e \<and> now > e then Inr False
       else validateUser c d (JSArray gs) (field_value (user doc)))"
    by (simp add: validateToken_valid_args [OF assms] split: option.splits)
qed

text \<open>
  On the example database: no such token; the revoked token B, though Alice is in the
  groups; the valid token A after its expiry time; the token A in time, for groups that
  Alice is in.
\<close>

theorem validateToken_order_witness:
  "validateToken example_constants 1500000200123 example_db
     (JSArray [str ''5'', str ''1'']) (JSString (str ''none'')) =
     Inl (DbError (UNEXPECTED_NUM_DOCS example_constants)) \<and>
   validateToken example_constants 1500000200123 example_db
     (JSArray [str ''5'', str ''1'']) (JSString token_B) = Inr False \<and>
   validateToken example_constants 1500604800001 example_db
     (JSArray [str ''5'', str ''1'']) (JSString token_A) = Inr False \<and>
   validateToken example_constants 1500000200123 example_db
     (JSArray [str ''5'', str ''1'']) (JSString token_A) = Inr True"
proof -
  note ok = example_db_connected example_strings_not_blank
  have u: "validateUser example_constants example_db (JSArray [str ''5'', str ''1''])
      (field_value (user doc_A)) = Inr True"
    by (simp add: example_docs field_value_def validateUser_valid_args ok)
       (simp add: example_db_def example_docs)
  have "validateToken example_constants 1500000200123 example_db
     (JSArray [str ''5'', str ''1'']) (JSString (str ''none'')) =
     Inl (DbError (UNEXPECTED_NUM_DOCS example_constants))"
    using validateToken_order [OF ok(1) ok(7), of example_constants 1500000200123
        "[str ''5'', str ''1'']"]
    by (simp add: example_db_tokens)
  moreover have "validateToken example_constants 1500000200123 example_db
     (JSArray [str ''5'', str ''1'']) (JSString token_B) = Inr False"
    using validateToken_order [OF ok(1) ok(5), of example_constants 1500000200123
        "[str ''5'', str ''1'']"]
    by (simp add: example_db_tokens example_docs)
  moreover have "validateToken example_constants 1500604800001 example_db
     (JSArray [str ''5'', str ''1'']) (JSString token_A) = Inr False"
    using validateToken_order [OF ok(1) ok(4), of example_constants 1500604800001
        "[str ''5'', str ''1'']"]
    by (simp add: example_db_tokens example_docs) (simp add: doc_A_def)
  moreover have "validateToken example_constants 1500000200123 example_db
     (JSArray [str ''5'', str ''1'']) (JSString token_A) = Inr True"
    using validateToken_order [OF ok(1) ok(4), of example_constants 1500000200123
        "[str ''5'', str ''1'']"] u
    by (simp add: example_db_tokens example_docs) (simp add: doc_A_def str_def chr_def)
  ultimately show ?thesis by simp
qed

section \<open>Creation followed by validation\<close>

lemma filter_token_fresh:
  "tok \<notin> token ` set xs \<Longrightarrow> filter (\<lambda>doc. token doc = tok) xs = []"
  by (auto simp: filter_empty_conv)

lemma validateToken_one:
  assumes "connectError d = None" and "trim t \<noteq> []"
    and "filter (\<lambda>doc. token doc = t) (tokens d) = [doc]"
    and "status doc \<noteq> TOKEN_STATUS_REVOKED c"
    and "expiryTime doc = Some e" and "now \<le> e"
  shows "validateToken c now d (JSArray gs) (JSString t) =
           validateUser c d (JSArray gs) (field_value (user doc))"
  using assms(4-6) by (simp add: validateToken_valid_args [OF assms(1,2)] assms(3))

text \<open>
  C7, as the code has it: \<open>createToken\<close> for a user and a justification that are not
  blank, on a connected database in which no document has the generated token yet, followed
  by \<open>validateToken\<close> of that token with no required group, not after the expiry time. When
  the collection of users has one document for the user and that document has a field
  \<open>groups\<close>, the answer is true.
\<close>

theorem create_then_validate:
  assumes "connectError d = None" and "trim u \<noteq> []" and "trim j \<noteq> []"
    and "generateTokenPromise src = Inr tok"
    and "tok \<notin> token ` set (tokens d)"
    and "filter (\<lambda>doc. user_id doc = u) (users d) = [r]"
    and "groups r = Some ug"
    and "TOKEN_STATUS_VALID c \<noteq> TOKEN_STATUS_REVOKED c"
    and "now' \<le> format (now + duration (TOKEN_DURATION c) (TOKEN_DURATION_UNIT c))"
  shows "\<exists>doc d'. createToken c src now d (JSString u) (JSString j) = (Inr doc, d') \<and>
           token doc = tok \<and>
           validateToken c now' d' (JSArray []) (JSString tok) = Inr True"
proof -
  let ?doc = "buildToken' c now tok u j"
  let ?d' = "d\<lparr>tokens := tokens d @ [?doc]\<rparr>"
  have cr: "createToken c src now d (JSString u) (JSString j) = (Inr ?doc, ?d')"
    by (rule createToken_valid_args [OF assms(1-4)])
  have t: "token ?doc = tok"
    by (simp add: buildToken'_def)
  have conn: "connectError ?d' = None"
    by (simp add: assms(1))
  have nb: "trim tok \<noteq> []"
    by (rule generateTokenPromise_not_blank [OF assms(4)])
  have f: "filter (\<lambda>doc. token doc = tok) (tokens ?d') = [?doc]"
    by (simp add: filter_token_fresh [OF assms(5)] t)
  have usr: "field_value (user ?doc) = JSString u"
    by (simp add: buildToken'_def field_value_def)
  have us: "validateUser c ?d' (JSArray []) (field_value (user ?doc)) = Inr True"
    unfolding usr by (simp add: validateUser_valid_args [OF conn assms(2)] assms(6,7))
  have st: "status ?doc \<noteq> TOKEN_STATUS_REVOKED c"
    using assms(8) by (simp add: buildToken'_def)
  have ex: "expiryTime ?doc =
      Some (format (now + duration (TOKEN_DURATION c) (TOKEN_DURATION_UNIT c)))"
    by (simp add: buildToken'_def)
  have "validateToken c now' ?d' (JSArray []) (JSString tok) =
      validateUser c ?d' (JSArray []) (field_value (user ?doc))"
    by (rule validateToken_one [OF conn nb f st ex assms(9)])
  with us have "validateToken c now' ?d' (JSArray []) (JSString tok) = Inr True"
    by simp
  with cr t show ?thesis by blast
qed

text \<open>
  A token for Alice on the example database, validated at the instant of its creation.
\<close>

theorem create_then_validate_witness:
  "validateToken example_constants 1500000000123
     (snd (createToken example_constants (Some example_bytes) 1500000000123 example_db
        (JSString alice) (JSString (str ''lost''))))
     (JSArray [])
     (JSString (token (projr (fst (createToken example_constants (Some example_bytes)
        1500000000123 example_db (JSString alice) (JSString (str ''lost''))))))) = Inr True"
proof -
  obtain tok where tok: "generateTokenPromise (Some example_bytes) = Inr tok"
    by (simp add: generateTokenPromise_Some)
  then have "hd tok = chr CHR ''-''"
    by (simp add: generateTokenPromise_Some replace_def upt_rec [of _ "numeral _"]
          example_bytes_def b64_def base64_alphabet_def str_def chr_def, auto)
  then have fresh: "tok \<notin> token ` set (tokens example_db)"
    by (auto simp: example_db_def doc_A_def doc_B_def token_A_def token_B_def str_def chr_def)
  have f: "filter (\<lambda>doc. user_id doc = alice) (users example_db) =
      [\<lparr>user_id = alice, groups = Some [str ''1'', str ''2'', str ''5'']\<rparr>]"
    by (simp add: example_db_def example_docs)
  have v: "TOKEN_STATUS_VALID example_constants \<noteq> TOKEN_STATUS_REVOKED example_constants"
    by (simp add: example_constants_def str_def chr_def)
  have n: "1500000000123 \<le> format (1500000000123 +
      duration (TOKEN_DURATION example_constants) (TOKEN_DURATION_UNIT example_constants))"
    by (simp add: example_constants_def duration_def format_def)
  from create_then_validate [OF example_db_connected example_strings_not_blank(1)
      example_strings_not_blank(5) tok fresh f _ v n, of "[str ''1'', str ''2'', str ''5'']"]
  show ?thesis by auto
qed

text \<open>
  The claim as the specification has it fails for a user whose one document has no field
  \<open>groups\<close>: Bob's token, validated at the instant of its creation with no required group,
  is answered with false.
\<close>

theorem create_then_validate_counterexample:
  "length (filter (\<lambda>doc. user_id doc = bob) (users example_db)) = 1 \<and>
   validateToken example_constants 1500000000123
     (snd (createToken example_constants (Some example_bytes) 1500000000123 example_db
        (JSString bob) (JSString (str ''lost''))))
     (JSArray [])
     (JSString (token (projr (fst (createToken example_constants (Some example_bytes)
        1500000000123 example_db (JSString bob) (JSString (str ''lost''))))))) = Inr False"
proof -
  obtain tok where tok: "generateTokenPromise (Some example_bytes) = Inr tok"
    by (simp add: generateTokenPromise_Some)
  then have "hd tok = chr CHR ''-''"
    by (simp add: generateTokenPromise_Some replace_def upt_rec [of _ "numeral _"]
          example_bytes_def b64_def base64_alphabet_def str_def chr_def, auto)
  then have fresh: "tok \<notin> token ` set (tokens example_db)"
    by (auto simp: example_db_def doc_A_def doc_B_def token_A_def token_B_def str_def chr_def)
  let ?doc = "buildToken' example_constants 1500000000123 tok bob (str ''lost'')"
  let ?d' = "example_db\<lparr>tokens := tokens example_db @ [?doc]\<rparr>"
  have cr: "createToken example_constants (Some example_bytes) 1500000000123 example_db
      (JSString bob) (JSString (str ''lost'')) = (Inr ?doc, ?d')"
    by (rule createToken_valid_args [OF example_db_connected example_strings_not_blank(2)
          example_strings_not_blank(5) tok])
  have conn: "connectError ?d' = None"
    by (simp add: example_db_connected)
  have nb: "trim tok \<noteq> []"
    by (rule generateTokenPromise_not_blank [OF tok])
  have t: "token ?doc = tok"
    by (simp add: buildToken'_def)
  have f: "filter (\<lambda>doc. token doc = tok) (tokens ?d') = [?doc]"
    by (simp add: filter_token_fresh [OF fresh] t)
  have fu: "filter (\<lambda>doc. user_id doc = bob) (users example_db) =
      [\<lparr>user_id = bob, groups = None\<rparr>]"
    by (simp add: example_db_def example_docs)
  have usr: "field_value (user ?doc) = JSString bob"
    by (simp add: buildToken'_def field_value_def)
  have us: "validateUser example_constants ?d' (JSArray []) (field_value (user ?doc)) =
      Inr False"
    unfolding usr by (simp add: validateUser_valid_args [OF conn example_strings_not_blank(2)] fu)
  have st: "status ?doc \<noteq> TOKEN_STATUS_REVOKED example_constants"
    by (simp add: buildToken'_def example_constants_def str_def chr_def)
  have ex: "expiryTime ?doc = Some 1500604800000"
    by (simp add: buildToken'_def example_constants_def duration_def format_def)
  have "validateToken example_constants 1500000000123 ?d' (JSArray []) (JSString tok) =
      validateUser example_constants ?d' (JSArray []) (field_value (user ?doc))"
    by (rule validateToken_one [OF conn nb f st ex]) simp
  with us have "validateToken example_constants 1500000000123 ?d' (JSArray [])
      (JSString tok) = Inr False"
    by simp
  with cr t fu show ?thesis by simp
qed

section \<open>Listing\<close>

lemma listTokens_string:
  "s \<noteq> [] \<Longrightarrow>
   listTokens d (JSString s) =
     then_p (p_collection d) (\<lambda>collection.
       Inr (sort_desc status (filter (\<lambda>doc. user doc = Some s) collection)))"
proof -
  have "field_value (user doc) = JSString s \<longleftrightarrow> user doc = Some s" for doc :: token_doc
    by (simp add: field_value_def split: option.splits)
  then show "s \<noteq> [] \<Longrightarrow> ?thesis"
    by (simp add: listTokens_def assert_def)
qed

lemma sort_desc_mset: "mset (sort_desc f xs) = mset xs"
  by (simp add: sort_desc_def)

lemma sort_desc_nth_mono:
  assumes "i \<le> j" and "j < length (sort_desc f xs)"
  shows "f (sort_desc f xs ! j) \<le> f (sort_desc f xs ! i)"
proof -
  let ?ys = "map f (sort_desc f xs)"
  have "rev ?ys = map f (sort_key f xs)"
    by (simp add: sort_desc_def rev_map)
  then have s: "sorted (rev ?ys)"
    by (simp add: sorted_sort_key)
  have lj: "j < length ?ys"
    using assms(2) by simp
  have "?ys ! j \<le> ?ys ! i"
    by (rule sorted_rev_nth_mono [OF s assms(1) lj])
  then show ?thesis
    using assms by simp
qed

text \<open>
  C8: for a user that is a string and not empty, on a connected database, \<open>listTokens\<close> is
  fulfilled with the token documents of that user, each as often as the collection has it.
  When \<open>TOKEN_STATUS_REVOKED\<close> is below \<open>TOKEN_STATUS_VALID\<close> in the order of the sort, as
  it is for the strings \<open>revoked\<close> and \<open>valid\<close>, no revoked document comes before a valid
  one. The list is empty when the user has no token.
\<close>

theorem listTokens_valid_first:
  assumes "connectError d = None" and "u \<noteq> []"
    and "TOKEN_STATUS_REVOKED c < TOKEN_STATUS_VALID c"
  shows "\<exists>docs. listTokens d (JSString u) = Inr docs \<and>
           mset docs = mset (filter (\<lambda>doc. user doc = Some u) (tokens d)) \<and>
           (\<forall>i j. i < j \<and> j < length docs \<and> status (docs ! j) = TOKEN_STATUS_VALID c \<longrightarrow>
                  status (docs ! i) \<noteq> TOKEN_STATUS_REVOKED c) \<and>
           (filter (\<lambda>doc. user doc = Some u) (tokens d) = [] \<longrightarrow> docs = [])"
proof -
  let ?docs = "sort_desc status (filter (\<lambda>doc. user doc = Some u) (tokens d))"
  have l: "listTokens d (JSString u) = Inr ?docs"
    by (simp add: listTokens_string [OF assms(2)] assms(1))
  have m: "mset ?docs = mset (filter (\<lambda>doc. user doc = Some u) (tokens d))"
    by (rule sort_desc_mset)
  have o: "status (?docs ! i) \<noteq> TOKEN_STATUS_REVOKED c"
    if "i < j" "j < length ?docs" "status (?docs ! j) = TOKEN_STATUS_VALID c" for i j
  proof -
    have "status (?docs ! j) \<le> status (?docs ! i)"
      using that(1,2) by (intro sort_desc_nth_mono) simp_all
    with that(3) assms(3) show ?thesis by auto
  qed
  have e: "filter (\<lambda>doc. user doc = Some u) (tokens d) = [] \<longrightarrow> ?docs = []"
    by (simp add: sort_desc_def)
  from l m o e show ?thesis by blast
qed

text \<open>
  The tokens of Alice in the example database, where the revoked token B is stored before
  the valid token A, and the tokens of Bob, who has none.
\<close>

theorem listTokens_valid_first_witness:
  "listTokens example_db (JSString alice) = Inr [doc_A, doc_B] \<and>
   listTokens example_db (JSString bob) = Inr []"
proof -
  have c: "TOKEN_STATUS_REVOKED example_constants < TOKEN_STATUS_VALID example_constants"
    by (simp add: example_constants_def str_def chr_def)
  have fa: "filter (\<lambda>doc. user doc = Some alice) (tokens example_db) = [doc_B, doc_A]"
    by (simp add: example_db_def example_docs)
  have fb: "filter (\<lambda>doc. user doc = Some bob) (tokens example_db) = []"
    by (simp add: example_db_def example_docs)
  have na: "alice \<noteq> []" "bob \<noteq> []"
    by (simp_all add: alice_def bob_def str_def)
  from listTokens_valid_first [OF example_db_connected na(1) c]
  obtain docs where d: "listTokens example_db (JSString alice) = Inr docs"
    "mset docs = mset [doc_B, doc_A]"
    "\<forall>i j. i < j \<and> j < length docs \<and> status (docs ! j) = TOKEN_STATUS_VALID example_constants
       \<longrightarrow> status (docs ! i) \<noteq> TOKEN_STATUS_REVOKED example_constants"
    unfolding fa by blast
  from d(2) have "length docs = 2" "set docs = {doc_B, doc_A}"
    by (metis length_Cons list.size(3) size_mset numeral_2_eq_2,
        metis list.simps(15) set_mset_mset empty_set)
  then obtain x y where xy: "docs = [x, y]" "{x, y} = {doc_B, doc_A}"
    by (cases docs rule: remdups_adj.cases) auto
  have "docs \<noteq> [doc_B, doc_A]"
  proof
    assume "docs = [doc_B, doc_A]"
    with d(3) [rule_format, of 0 1] show False
      by (simp add: example_docs)
  qed
  moreover have "doc_A \<noteq> doc_B"
    by (simp add: doc_A_def doc_B_def)
  ultimately have "docs = [doc_A, doc_B]"
    using xy d(2) by (auto simp: doubleton_eq_iff)
  moreover from listTokens_valid_first [OF example_db_connected na(2) c]
  have "listTokens example_db (JSString bob) = Inr []"
    unfolding fb by auto
  ultimately show ?thesis
    using d(1) by simp
qed

section \<open>The status of a token over a sequence of calls\<close>

text \<open>
  What a call may do to a token document: nothing, or set its status to
  \<open>TOKEN_STATUS_REVOKED\<close> and add to its history.
\<close>

lemma p_collection_Inr: "p_collection d = Inr collection \<Longrightarrow> collection = tokens d"
  by (auto simp: p_collection_def p_db_def getCollection_def split: option.splits)

lemma updateToken'_tokens:
  assumes "\<And>x. R x x" and "\<And>x. R x (upd x)"
  shows "list_all2 R (tokens d) (tokens (snd (updateToken' d doc upd)))"
proof (cases "p_collection d")
  case (Inl e)
  then show ?thesis
    by (simp add: updateToken'_def list_all2_same assms(1))
next
  case (Inr collection)
  then have "collection = tokens d"
    by (rule p_collection_Inr)
  with Inr have "tokens (snd (updateToken' d doc upd)) =
      snd (findOneAndUpdate (\<lambda>x. token x = token doc) upd (tokens d))"
    by (simp add: updateToken'_def split: prod.splits)
  moreover have "list_all2 R (tokens d)
      (snd (findOneAndUpdate (\<lambda>x. token x = token doc) upd (tokens d)))"
    by (rule list_all2_mono [OF findOneAndUpdate_all2]) (auto simp: assms)
  ultimately show ?thesis by simp
qed

lemma revokeToken_tokens:
  "list_all2 (\<lambda>a b. token b = token a \<and>
                      (status b = status a \<or> status b = TOKEN_STATUS_REVOKED c))
     (tokens d) (tokens (snd (revokeToken c now d usr tok justification)))"
  unfolding revokeToken_def Let_def
  by (auto split: sum.splits option.splits simp: list_all2_same intro!: updateToken'_tokens)

lemma exec_tokens:
  "\<exists>ys zs. tokens (exec c x d) = ys @ zs \<and>
     list_all2 (\<lambda>a b. token b = token a \<and>
                       (status b = status a \<or> status b = TOKEN_STATUS_REVOKED c))
       (tokens d) ys \<and>
     (\<forall>z\<in>set zs. status z = TOKEN_STATUS_VALID c)"
proof (cases x)
  case (CreateToken src now usr justification)
  show ?thesis
  proof (cases "fst (createToken c src now d usr justification)")
    case (Inl e)
    then have "snd (createToken c src now d usr justification) = d"
      by (auto simp: createToken_def Let_def split: sum.splits prod.splits)
    then show ?thesis
      using CreateToken
      by (intro exI [of _ "tokens d"] exI [of _ "[]"]) (simp add: list_all2_same)
  next
    case (Inr doc)
    then have "createToken c src now d usr justification =
        (Inr doc, snd (createToken c src now d usr justification))"
      by (metis prod.collapse)
    from createToken_Inr [OF this] obtain tok u j where
      "doc = buildToken' c now tok u j"
      "snd (createToken c src now d usr justification) = d\<lparr>tokens := tokens d @ [doc]\<rparr>"
      by blast
    then show ?thesis
      using CreateToken
      by (intro exI [of _ "tokens d"] exI [of _ "[doc]"])
         (simp add: list_all2_same buildToken'_def)
  qed
next
  case (RevokeToken now usr tok justification)
  have "list_all2 (\<lambda>a b. token b = token a \<and>
                       (status b = status a \<or> status b = TOKEN_STATUS_REVOKED c))
      (tokens d) (tokens (snd (revokeToken c now d usr tok justification)))"
    by (rule revokeToken_tokens)
  then show ?thesis
    using RevokeToken by (intro exI [of _ "tokens (exec c x d)"] exI [of _ "[]"]) simp
next
  case (ListTokens usr)
  then show ?thesis
    by (intro exI [of _ "tokens d"] exI [of _ "[]"]) (simp add: list_all2_same)
next
  case (ValidateToken now grps tok)
  then show ?thesis
    by (intro exI [of _ "tokens d"] exI [of _ "[]"]) (simp add: list_all2_same)
next
  case (ValidateUser grps usr)
  then show ?thesis
    by (intro exI [of _ "tokens d"] exI [of _ "[]"]) (simp add: list_all2_same)
qed

lemma run_tokens:
  "\<exists>ys zs. tokens (run c xs d) = ys @ zs \<and>
     list_all2 (\<lambda>a b. token b = token a \<and>
                       (status b = status a \<or> status b = TOKEN_STATUS_REVOKED c))
       (tokens d) ys \<and>
     (\<forall>z\<in>set zs. status z = TOKEN_STATUS_VALID c \<or> status z = TOKEN_STATUS_REVOKED c)"
proof (induction xs arbitrary: d)
  case Nil
  show ?case
    by (intro exI [of _ "tokens d"] exI [of _ "[]"]) (simp add: list_all2_same)
next
  case (Cons x xs)
  let ?R = "\<lambda>a b. token b = token a \<and> (status b = status a \<or> status b = TOKEN_STATUS_REVOKED c)"
  from exec_tokens [of c x d] obtain ys zs where
    1: "tokens (exec c x d) = ys @ zs" "list_all2 ?R (tokens d) ys"
       "\<forall>z\<in>set zs. status z = TOKEN_STATUS_VALID c"
    by blast
  from Cons.IH [of "exec c x d"] obtain ys' zs' where
    2: "tokens (run c xs (exec c x d)) = ys' @ zs'" "list_all2 ?R (tokens (exec c x d)) ys'"
       "\<forall>z\<in>set zs'. status z = TOKEN_STATUS_VALID c \<or> status z = TOKEN_STATUS_REVOKED c"
    by blast
  from 2(2) 1(1) obtain ya za where
    3: "ys' = ya @ za" "list_all2 ?R ys ya" "list_all2 ?R zs za"
    by (auto simp: list_all2_append1)
  have "list_all2 ?R (tokens d) ya"
    using 1(2) 3(2) by (rule list_all2_trans [rotated]) auto
  moreover have "\<forall>z\<in>set (za @ zs').
      status z = TOKEN_STATUS_VALID c \<or> status z = TOKEN_STATUS_REVOKED c"
  proof -
    have "status z = TOKEN_STATUS_VALID c \<or> status z = TOKEN_STATUS_REVOKED c"
      if "z \<in> set za" for z
    proof -
      from that obtain i where i: "i < length za" "z = za ! i"
        by (auto simp: in_set_conv_nth)
      have "?R (zs ! i) (za ! i)"
        by (rule list_all2_nthD2 [OF 3(3) i(1)])
      moreover have "zs ! i \<in> set zs"
        using i(1) 3(3) by (simp add: list_all2_lengthD)
      ultimately show ?thesis
        using 1(3) i(2) by auto
    qed
    with 2(3) show ?thesis by auto
  qed
  moreover have "tokens (run c (x # xs) d) = ya @ (za @ zs')"
    using 2(1) 3(1) by simp
  ultimately show ?case by blast
qed

text \<open>
  C9: the document that \<open>createToken\<close> is fulfilled with and inserts has the status
  \<open>TOKEN_STATUS_VALID\<close>. Over any sequence of calls of the exported functions, a document
  of the collection of tokens stays at its place with its token, and its status is either
  as before or \<open>TOKEN_STATUS_REVOKED\<close>: a revoked document stays revoked. When every
  document has the status valid or revoked before the calls, so has every document after
  them.
\<close>

theorem status_only_revoked:
  "(\<forall>doc d'. createToken c src now d usr justification = (Inr doc, d') \<longrightarrow>
      status doc = TOKEN_STATUS_VALID c \<and> tokens d' = tokens d @ [doc]) \<and>
   (\<forall>i<length (tokens d).
      i < length (tokens (run c calls d)) \<and>
      token (tokens (run c calls d) ! i) = token (tokens d ! i) \<and>
      (status (tokens (run c calls d) ! i) = status (tokens d ! i) \<or>
       status (tokens (run c calls d) ! i) = TOKEN_STATUS_REVOKED c)) \<and>
   (\<forall>i<length (tokens d).
      status (tokens d ! i) = TOKEN_STATUS_REVOKED c \<longrightarrow>
      status (tokens (run c calls d) ! i) = TOKEN_STATUS_REVOKED c) \<and>
   ((\<forall>x\<in>set (tokens d). status x = TOKEN_STATUS_VALID c \<or> status x = TOKEN_STATUS_REVOKED c) \<longrightarrow>
    (\<forall>x\<in>set (tokens (run c calls d)).
       status x = TOKEN_STATUS_VALID c \<or> status x = TOKEN_STATUS_REVOKED c))"
proof -
  let ?R = "\<lambda>a b. token b = token a \<and> (status b = status a \<or> status b = TOKEN_STATUS_REVOKED c)"
  from run_tokens [of c calls d] obtain ys zs where
    r: "tokens (run c calls d) = ys @ zs" "list_all2 ?R (tokens d) ys"
       "\<forall>z\<in>set zs. status z = TOKEN_STATUS_VALID c \<or> status z = TOKEN_STATUS_REVOKED c"
    by blast
  have len: "length ys = length (tokens d)"
    using r(2) by (simp add: list_all2_lengthD)
  have nth: "?R (tokens d ! i) (tokens (run c calls d) ! i)" if "i < length (tokens d)" for i
  proof -
    have "?R (tokens d ! i) (ys ! i)"
      by (rule list_all2_nthD [OF r(2) that])
    moreover have "tokens (run c calls d) ! i = ys ! i"
      using that len by (simp add: r(1) nth_append)
    ultimately show ?thesis by simp
  qed
  have a: "\<forall>doc d'. createToken c src now d usr justification = (Inr doc, d') \<longrightarrow>
      status doc = TOKEN_STATUS_VALID c \<and> tokens d' = tokens d @ [doc]"
    by (auto dest!: createToken_Inr simp: buildToken'_def)
  have b: "\<forall>i<length (tokens d).
      i < length (tokens (run c calls d)) \<and>
      token (tokens (run c calls d) ! i) = token (tokens d ! i) \<and>
      (status (tokens (run c calls d) ! i) = status (tokens d ! i) \<or>
       status (tokens (run c calls d) ! i) = TOKEN_STATUS_REVOKED c)"
    using nth r(1) len by auto
  have c: "\<forall>i<length (tokens d).
      status (tokens d ! i) = TOKEN_STATUS_REVOKED c \<longrightarrow>
      status (tokens (run c calls d) ! i) = TOKEN_STATUS_REVOKED c"
  proof (intro allI impI)
    fix i
    assume "i < length (tokens d)" and "status (tokens d ! i) = TOKEN_STATUS_REVOKED c"
    with nth [of i] show "status (tokens (run c calls d) ! i) = TOKEN_STATUS_REVOKED c"
      by auto
  qed
  have d: "(\<forall>x\<in>set (tokens d). status x = TOKEN_STATUS_VALID c \<or> status x = TOKEN_STATUS_REVOKED c) \<longrightarrow>
    (\<forall>x\<in>set (tokens (run c calls d)).
       status x = TOKEN_STATUS_VALID c \<or> status x = TOKEN_STATUS_REVOKED c)"
  proof (intro impI ballI)
    fix x
    assume inv: "\<forall>x\<in>set (tokens d). status x = TOKEN_STATUS_VALID c \<or> status x = TOKEN_STATUS_REVOKED c"
      and x: "x \<in> set (tokens (run c calls d))"
    from x r(1) consider "x \<in> set ys" | "x \<in> set zs" by auto
    then show "status x = TOKEN_STATUS_VALID c \<or> status x = TOKEN_STATUS_REVOKED c"
    proof cases
      case 1
      then obtain i where i: "i < length ys" "x = ys ! i"
        by (auto simp: in_set_conv_nth)
      have "?R (tokens d ! i) (ys ! i)"
        by (rule list_all2_nthD2 [OF r(2) i(1)])
      then have "?R (tokens d ! i) x"
        by (simp add: i(2))
      moreover have "tokens d ! i \<in> set (tokens d)"
        using i(1) len by simp
      ultimately show ?thesis
        using inv by auto
    next
      case 2
      with r(3) show ?thesis by blast
    qed
  qed
  from a b c d show ?thesis by blast
qed

text \<open>
  On the example database: Alice creates a token, revokes her revoked token B once more and
  her valid token A, lists her tokens and validates token B. The new document is created
  valid, token B is revoked before and after the calls, at its place in the collection, and
  every document is valid or revoked after the calls.
\<close>

theorem status_only_revoked_witness:
  "status (projr (fst (createToken example_constants (Some example_bytes) 1500000000123
      example_db (JSString alice) (JSString (str ''lost''))))) =
     TOKEN_STATUS_VALID example_constants \<and>
   status (tokens example_db ! 0) = TOKEN_STATUS_REVOKED example_constants \<and>
   token (tokens example_db ! 0) = token_B \<and>
   status (tokens (run example_constants
      [CreateToken (Some example_bytes) 1500000000123 (JSString alice) (JSString (str ''lost'')),
       RevokeToken 1500000200123 (JSString alice) (JSString token_B) (JSString (str ''lost'')),
       RevokeToken 1500000200123 (JSString alice) (JSString token_A) (JSString (str ''lost'')),
       ListTokens (JSString alice),
       ValidateToken 1500000200123 (JSArray []) (JSString token_B)] example_db) ! 0) =
     TOKEN_STATUS_REVOKED example_constants \<and>
   token (tokens (run example_constants
      [CreateToken (Some example_bytes) 1500000000123 (JSString alice) (JSString (str ''lost'')),
       RevokeToken 1500000200123 (JSString alice) (JSString token_B) (JSString (str ''lost'')),
       RevokeToken 1500000200123 (JSString alice) (JSString token_A) (JSString (str ''lost'')),
       ListTokens (JSString alice),
       ValidateToken 1500000200123 (JSArray []) (JSString token_B)] example_db) ! 0) =
     token_B \<and>
   list_all (\<lambda>x. status x = TOKEN_STATUS_VALID example_constants \<or>
                  status x = TOKEN_STATUS_REVOKED example_constants)
     (tokens (run example_constants
      [CreateToken (Some example_bytes) 1500000000123 (JSString alice) (JSString (str ''lost'')),
       RevokeToken 1500000200123 (JSString alice) (JSString token_B) (JSString (str ''lost'')),
       RevokeToken 1500000200123 (JSString alice) (JSString token_A) (JSString (str ''lost'')),
       ListTokens (JSString alice),
       ValidateToken 1500000200123 (JSArray []) (JSString token_B)] example_db))"
proof -
  obtain tok where tok: "generateTokenPromise (Some example_bytes) = Inr tok"
    by (simp add: generateTokenPromise_Some)
  have cr: "createToken example_constants (Some example_bytes) 1500000000123 example_db
      (JSString alice) (JSString (str ''lost'')) =
      (Inr (buildToken' example_constants 1500000000123 tok alice (str ''lost'')),
       example_db\<lparr>tokens := tokens example_db @
         [buildToken' example_constants 1500000000123 tok alice (str ''lost'')]\<rparr>)"
    by (rule createToken_valid_args [OF example_db_connected example_strings_not_blank(1)
          example_strings_not_blank(5) tok])
  have ex: "0 < length (tokens example_db)"
    "status (tokens example_db ! 0) = TOKEN_STATUS_REVOKED example_constants"
    "token (tokens example_db ! 0) = token_B"
    "\<forall>x\<in>set (tokens example_db). status x = TOKEN_STATUS_VALID example_constants \<or>
       status x = TOKEN_STATUS_REVOKED example_constants"
    by (simp_all add: example_db_def example_docs) (simp add: doc_B_def)
  from status_only_revoked [of example_constants "Some example_bytes" 1500000000123 example_db
      "JSString alice" "JSString (str ''lost'')"
      "[CreateToken (Some example_bytes) 1500000000123 (JSString alice) (JSString (str ''lost'')),
       RevokeToken 1500000200123 (JSString alice) (JSString token_B) (JSString (str ''lost'')),
       RevokeToken 1500000200123 (JSString alice) (JSString token_A) (JSString (str ''lost'')),
       ListTokens (JSString alice),
       ValidateToken 1500000200123 (JSArray []) (JSString token_B)]"]
  show ?thesis
    using ex unfolding cr list_all_iff by (simp del: run.simps)
qed

section \<open>Blank arguments\<close>

text \<open>
  C10: a string that is not empty and has only white space in it. \<open>createToken\<close>,
  \<open>revokeToken\<close> and \<open>validateToken\<close> reject it in each of their string parameters with an
  \<open>AssertionError\<close>, whatever the database and the random source are (also when the
  connection failed), and leave the database as it was. \<open>listTokens\<close> takes it as a user:
  its result is what the query of the collection for that user gives.
\<close>

theorem blank_string_arguments:
  assumes "s \<noteq> []" and "\<forall>ch\<in>set s. isWhiteSpace ch"
  shows "createToken c src now d (JSString s) v =
           (Inl (AssertionError ''createToken: user cannot be empty string''), d) \<and>
         (trim u \<noteq> [] \<longrightarrow>
            createToken c src now d (JSString u) (JSString s) =
              (Inl (AssertionError ''createToken: justification cannot be empty string''), d)) \<and>
         revokeToken c now d (JSString s) v w =
           (Inl (AssertionError ''revokeToken: user cannot be empty string''), d) \<and>
         (trim u \<noteq> [] \<longrightarrow>
            revokeToken c now d (JSString u) (JSString s) w =
              (Inl (AssertionError ''revokeToken: token cannot be empty string''), d)) \<and>
         (trim u \<noteq> [] \<and> trim t \<noteq> [] \<longrightarrow>
            revokeToken c now d (JSString u) (JSString t) (JSString s) =
              (Inl (AssertionError ''revokeToken: justification cannot be empty string''), d)) \<and>
         validateToken c now d (JSArray gs) (JSString s) =
           Inl (AssertionError ''validateToken: token cannot be empty string'') \<and>
         listTokens d (JSString s) =
           then_p (p_collection d) (\<lambda>collection.
             Inr (sort_desc status (filter (\<lambda>doc. user doc = Some s) collection)))"
proof -
  note blank = validateNoEmptyString'_blank [OF assms]
  have "createToken c src now d (JSString s) v =
           (Inl (AssertionError ''createToken: user cannot be empty string''), d)"
    by (simp add: createToken_def blank)
  moreover have "trim u \<noteq> [] \<longrightarrow>
            createToken c src now d (JSString u) (JSString s) =
              (Inl (AssertionError ''createToken: justification cannot be empty string''), d)"
    by (simp add: createToken_def blank)
  moreover have "revokeToken c now d (JSString s) v w =
           (Inl (AssertionError ''revokeToken: user cannot be empty string''), d)"
    by (simp add: revokeToken_def blank)
  moreover have "trim u \<noteq> [] \<longrightarrow>
            revokeToken c now d (JSString u) (JSString s) w =
              (Inl (AssertionError ''revokeToken: token cannot be empty string''), d)"
    by (simp add: revokeToken_def blank)
  moreover have "trim u \<noteq> [] \<and> trim t \<noteq> [] \<longrightarrow>
            revokeToken c now d (JSString u) (JSString t) (JSString s) =
              (Inl (AssertionError ''revokeToken: justification cannot be empty string''), d)"
    by (simp add: revokeToken_def blank)
  moreover have "validateToken c now d (JSArray gs) (JSString s) =
           Inl (AssertionError ''validateToken: token cannot be empty string'')"
    by (simp add: validateToken_def blank)
  moreover have "listTokens d (JSString s) =
           then_p (p_collection d) (\<lambda>collection.
             Inr (sort_desc status (filter (\<lambda>doc. user doc = Some s) collection)))"
    using assms(1) by (rule listTokens_string)
  ultimately show ?thesis by blast
qed

text \<open>
  A space, a tab and a no-break space: rejected by \<open>createToken\<close>, \<open>revokeToken\<close> and
  \<open>validateToken\<close>, and the name of a user without tokens for \<open>listTokens\<close>.
\<close>

theorem blank_string_arguments_witness:
  "createToken example_constants (Some example_bytes) 1500000200123 example_db
     (JSString [0x20, 0x09, 0xA0]) (JSString (str ''lost'')) =
     (Inl (AssertionError ''createToken: user cannot be empty string''), example_db) \<and>
   createToken example_constants (Some example_bytes) 1500000200123 example_db
     (JSString alice) (JSString [0x20, 0x09, 0xA0]) =
     (Inl (AssertionError ''createToken: justification cannot be empty string''), example_db) \<and>
   revokeToken example_constants 1500000200123 example_db
     (JSString alice) (JSString [0x20, 0x09, 0xA0]) (JSString (str ''lost'')) =
     (Inl (AssertionError ''revokeToken: token cannot be empty string''), example_db) \<and>
   revokeToken example_constants 1500000200123 example_db
     (JSString alice) (JSString token_A) (JSString [0x20, 0x09, 0xA0]) =
     (Inl (AssertionError ''revokeToken: justification cannot be empty string''), example_db) \<and>
   validateToken example_constants 1500000200123 example_db
     (JSArray []) (JSString [0x20, 0x09, 0xA0]) =
     Inl (AssertionError ''validateToken: token cannot be empty string'') \<and>
   listTokens example_db (JSString [0x20, 0x09, 0xA0]) = Inr []"
proof -
  have b: "[0x20, 0x09, 0xA0] \<noteq> ([] :: js_string)"
    "\<forall>ch\<in>set [0x20, 0x09, 0xA0]. isWhiteSpace ch"
    by (simp_all add: isWhiteSpace_def)
  have l: "then_p (p_collection example_db) (\<lambda>collection.
      Inr (sort_desc status (filter (\<lambda>doc. user doc = Some [0x20, 0x09, 0xA0]) collection))) =
      Inr []"
    by (simp add: example_db_connected)
       (simp add: example_db_def doc_A_def doc_B_def alice_def str_def chr_def sort_desc_def)
  show ?thesis
    using blank_string_arguments [OF b, of example_constants "Some example_bytes"
        1500000200123 example_db "JSString (str ''lost'')" alice "JSString (str ''lost'')"
        token_A "[]"]
    by (simp add: example_strings_not_blank l)
qed

end
